theory Spec2Isabelle
  imports Main
begin

section \<open>Errors and Python primitives\<close>

text \<open>
  The exceptions the modelled code raises.  A constructor carries the message the source
  formats; a hierarchy error carries the level and the hierarchy or path of its message
  instead of the formatted text.  \<^verbatim>\<open>ExternalError\<close> stands for a failure inside a
  collaborator that is not among the sources.
\<close>

datatype hierarchy_fault =
    LevelNotInHierarchy string string
  | LevelDeeperThanPath string "string list"

datatype error =
    ModelError string
  | ModelInconsistencyError string
  | NoSuchAttributeError string
  | HierarchyError hierarchy_fault
  | ArgumentError string
  | ExpressionError string
  | InternalError string
  | SyntaxError string
  | Exception string
  | BdbQuit
  | KeyError string
  | IndexError
  | ValueError string
  | TypeError string
  | ReError string
  | ExternalError string

text \<open>
  Truth value of an \<^verbatim>\<open>Optional[str]\<close> in a condition: \<^verbatim>\<open>None\<close> and the empty text
  are false.
\<close>

definition truthy :: "string option \<Rightarrow> bool" where
  "truthy v = (case v of None \<Rightarrow> False | Some s \<Rightarrow> s \<noteq> [])"

text \<open>
  An insertion-ordered \<^verbatim>\<open>dict\<close> is an association list with distinct keys.
  \<^verbatim>\<open>d[k] = v\<close> replaces the value in place when the key is present and appends the
  pair otherwise; \<^verbatim>\<open>d.get(k)\<close> is \<open>map_of d k\<close>.
\<close>

fun dict_set :: "'k \<Rightarrow> 'v \<Rightarrow> ('k \<times> 'v) list \<Rightarrow> ('k \<times> 'v) list" where
  "dict_set k v [] = [(k, v)]"
| "dict_set k v (p # ps) = (if fst p = k then (k, v) # ps else p # dict_set k v ps)"

text \<open>\<^verbatim>\<open>dict(pairs)\<close>: later pairs overwrite earlier ones with the same key.\<close>

definition dict_of :: "('k \<times> 'v) list \<Rightarrow> ('k \<times> 'v) list" where
  "dict_of ps = foldl (\<lambda>d (k, v). dict_set k v d) [] ps"

text \<open>\<^verbatim>\<open>list.index(x)\<close>: the first position of \<open>x\<close>, or nothing (the source's ValueError).\<close>

fun index_of :: "'a \<Rightarrow> 'a list \<Rightarrow> nat option" where
  "index_of x [] = None"
| "index_of x (y # ys) =
     (if x = y then Some 0 else map_option Suc (index_of x ys))"

text \<open>
  Python's \<^verbatim>\<open>str.split(sep)\<close> for a one-character separator: the text is cut at every
  occurrence of the separator, empty pieces are kept, and the empty text gives one empty
  piece.
\<close>

fun split :: "char \<Rightarrow> string \<Rightarrow> string list" where
  "split sep [] = [[]]"
| "split sep (c # cs) =
     (if c = sep then [] # split sep cs
      else (case split sep cs of
              [] \<Rightarrow> [[c]]
            | p # ps \<Rightarrow> (c # p) # ps))"

section \<open>HTTP request preparation: the \<^verbatim>\<open>order\<close> parameter (server/decorators.py)\<close>

text \<open>
  The inner loop body of \<^verbatim>\<open>requires_browser\<close>:
  \<^verbatim>\<open>split = order.split(":")\<close>; one piece gives \<^verbatim>\<open>(order, None)\<close>, otherwise
  \<^verbatim>\<open>(split[0], split[1])\<close>.
\<close>

definition order_segment :: "string \<Rightarrow> string \<times> string option" where
  "order_segment order =
     (case split (CHR '':'') order of
        [p] \<Rightarrow> (order, None)
      | p # q # _ \<Rightarrow> (p, Some q)
      | [] \<Rightarrow> (order, None))"

text \<open>\<^verbatim>\<open>for order in orders.split(",")\<close>: the segments of one parameter value, in order.\<close>

definition order_value :: "string \<Rightarrow> (string \<times> string option) list" where
  "order_value orders = map order_segment (split (CHR '','') orders)"

text \<open>
  \<^verbatim>\<open>for orders in request.args.getlist("order")\<close>: \<^verbatim>\<open>g.order\<close> starts empty and every
  pair is appended, so the result is the concatenation over the values of the repeated
  parameter.
\<close>

fun collect_order :: "string list \<Rightarrow> (string \<times> string option) list" where
  "collect_order [] = []"
| "collect_order (orders # rest) = order_value orders @ collect_order rest"

section \<open>Dimensional metadata model (metadata/dimension.py)\<close>

subsection \<open>Attributes and expression trees\<close>

text \<open>
  Metadata values (\<^verbatim>\<open>JSONType\<close>): the \<^verbatim>\<open>info\<close> dictionaries and the physical
  references of a cube's mapping table.
\<close>

datatype json =
    JNull
  | JBool bool
  | JInt int
  | JStr string
  | JList "json list"
  | JDict "(string \<times> json) list"

text \<open>
  The tree of an attribute's expression, as the expression framework hands it to the
  compiler's \<^verbatim>\<open>compile_literal\<close>, \<^verbatim>\<open>compile_variable\<close>, \<^verbatim>\<open>compile_binary\<close>,
  \<^verbatim>\<open>compile_unary\<close> and \<^verbatim>\<open>compile_function\<close>.
\<close>

datatype literal = IntLit int | StrLit string

datatype expr =
    Literal literal
  | Variable string
  | Binary string expr expr
  | Unary string expr
  | Function string "expr list"

text \<open>
  The fields of an attribute that the sources read (metadata/attributes.py is not among
  them).  \<open>'d\<close> is what \<^verbatim>\<open>attribute.dimension\<close> holds: in the metadata model the name
  of the owning dimension, in the mapper the dimension itself.
\<close>

record 'd attribute =
  attr_name :: string
  attr_ref :: string
  attr_dimension :: "'d option"
  attr_expression :: "expr option"
  attr_function :: "string option"
  attr_locales :: "string list"

subsection \<open>Level\<close>

record 'd level =
  level_name :: string
  level_label :: "string option"
  level_description :: "string option"
  level_info :: "json option"
  level_cardinality :: "string option"
  level_role :: "string option"
  level_attributes :: "'d attribute list"
  level_nonadditive :: "string option"
  level_key :: "'d attribute"
  level_label_attribute :: "'d attribute"
  level_order_attribute :: "'d attribute"
  level_order :: "string option"

text \<open>
  \<^verbatim>\<open>Level.attribute(name)\<close>, on the attribute list: the first attribute of that name,
  or \<^verbatim>\<open>NoSuchAttributeError(name)\<close>.
\<close>

definition attribute :: "'d attribute list \<Rightarrow> string \<Rightarrow> error + 'd attribute" where
  "attribute attributes name =
     (case filter (\<lambda>attr. attr_name attr = name) attributes of
        [] \<Rightarrow> Inl (NoSuchAttributeError name)
      | a # _ \<Rightarrow> Inr a)"

text \<open>
  The \<^verbatim>\<open>if\<close>/\<^verbatim>\<open>elif\<close> chain of lines 128-133 (Level) and 825-830 (Dimension): the
  value it assigns to \<^verbatim>\<open>self.nonadditive\<close>, or the model error it raises.  In the
  branch for \<^verbatim>\<open>"time"\<close> the chain assigns nothing.
\<close>

definition nonadditive_chain :: "string option \<Rightarrow> error + string option option" where
  "nonadditive_chain nonadditive =
     (if \<not> truthy nonadditive \<or> nonadditive = Some ''none'' then Inr (Some None)
      else if nonadditive = Some ''all'' \<or> nonadditive = Some ''any''
        then Inr (Some (Some ''all''))
      else if nonadditive \<noteq> Some ''time''
        then Inl (ModelError (''Unknown non-additive diension type '' @ [CHR 0x27]
                    @ the nonadditive @ [CHR 0x27]))
      else Inr None)"

text \<open>
  \<^verbatim>\<open>Level.__init__\<close>, arguments in the order of the source.  After the chain, line 134
  assigns \<^verbatim>\<open>self.nonadditive = nonadditive\<close> whatever branch was taken, so the value
  of the chain is dropped and only its error remains.
\<close>

definition Level_init ::
  "string \<Rightarrow> 'd attribute list \<Rightarrow> string option \<Rightarrow> string option \<Rightarrow> string option
   \<Rightarrow> string option \<Rightarrow> string option \<Rightarrow> json option \<Rightarrow> string option
   \<Rightarrow> string option \<Rightarrow> string option \<Rightarrow> string option \<Rightarrow> error + 'd level" where
  "Level_init name attributes key order_attribute order' label_attribute label info
      cardinality role nonadditive description =
     (if attributes = [] then Inl (ModelError ''Attribute list should not be empty'')
      else case nonadditive_chain nonadditive of
        Inl e \<Rightarrow> Inl e
      | Inr _ \<Rightarrow>
     (case (if truthy key then attribute attributes (the key)
            else if length attributes \<ge> 1 then Inr (attributes ! 0)
            else Inl (ModelInconsistencyError ''Attribute list should not be empty'')) of
        Inl e \<Rightarrow> Inl e
      | Inr self_key \<Rightarrow>
     (case (if truthy label_attribute then attribute attributes (the label_attribute)
            else if length attributes > 1 then Inr (attributes ! 1)
            else Inr self_key) of
        Inl e \<Rightarrow> Inl e
      | Inr self_label_attribute \<Rightarrow>
     (case (if truthy order_attribute
            then (case attribute attributes (the order_attribute) of
                    Inl (NoSuchAttributeError _) \<Rightarrow>
                      Inl (NoSuchAttributeError
                        (''Unknown order attribute '' @ the order_attribute
                           @ '' in level '' @ name))
                  | r \<Rightarrow> r)
            else Inr (attributes ! 0)) of
        Inl e \<Rightarrow> Inl e
      | Inr self_order_attribute \<Rightarrow>
          Inr \<lparr> level_name = name, level_label = label,
                level_description = description, level_info = info,
                level_cardinality = cardinality, level_role = role,
                level_attributes = attributes, level_nonadditive = nonadditive,
                level_key = self_key, level_label_attribute = self_label_attribute,
                level_order_attribute = self_order_attribute,
                level_order = order' \<rparr>))))"

text \<open>\<^verbatim>\<open>Level.has_details\<close>: more than one attribute.\<close>

definition level_has_details :: "'d level \<Rightarrow> bool" where
  "level_has_details l = (length (level_attributes l) > 1)"

subsection \<open>Parsing a drilldown string\<close>

text \<open>
  The identifier class of the pattern, \<^verbatim>\<open>[\w\d_]\<close>, on ASCII text: letters, digits and
  the underscore.  (Characters are bytes here; the word characters beyond ASCII that
  Python's \<^verbatim>\<open>\w\<close> also accepts are outside the model.)
\<close>

definition ident :: "char \<Rightarrow> bool" where
  "ident c = (let n = (of_char c :: nat) in
      (65 \<le> n \<and> n \<le> 90) \<or> (97 \<le> n \<and> n \<le> 122) \<or> (48 \<le> n \<and> n \<le> 57) \<or> n = 95)"

text \<open>
  One optional group \<^verbatim>\<open>(<sep>(?P<g>[\w\d_]+))?\<close> tried at the head of the remaining
  text: when the separator is followed by at least one identifier character the group
  takes the longest such run, otherwise the group takes nothing and the text is left
  where it was.
\<close>

definition optional_group :: "char \<Rightarrow> string \<Rightarrow> string option \<times> string" where
  "optional_group sep s =
     (case s of
        [] \<Rightarrow> (None, s)
      | c # cs \<Rightarrow>
          if c = sep \<and> takeWhile ident cs \<noteq> []
          then (Some (takeWhile ident cs), dropWhile ident cs)
          else (None, s))"

text \<open>
  \<^verbatim>\<open>re.match(pattern, astring)\<close> for the pattern
  \<^verbatim>\<open>(?P<dim>I+)(@(?P<hier>I+))?(:(?P<level>I+))?\<close> with \<^verbatim>\<open>I = [\w\d_]\<close>: the match is
  anchored at the start of the text only.  The greedy first group takes the longest run
  of identifier characters (and must take one); since what follows is optional the
  matcher never gives characters back.  The result is the \<^verbatim>\<open>groupdict\<close>, with what
  the match left unread.
\<close>

definition re_match ::
  "string \<Rightarrow> ((string \<times> string option \<times> string option) \<times> string) option" where
  "re_match astring =
     (if takeWhile ident astring = [] then None
      else (case optional_group (CHR ''@'') (dropWhile ident astring) of
              (hier, rest) \<Rightarrow>
                (case optional_group (CHR '':'') rest of
                   (level, rest') \<Rightarrow>
                     Some ((takeWhile ident astring, hier, level), rest'))))"

definition string_to_dimension_level ::
  "string \<Rightarrow> error + (string \<times> string option \<times> string option)" where
  "string_to_dimension_level astring =
     (if astring = [] then Inl (ArgumentError ''Drilldown string should not be empty'')
      else (case re_match astring of
              Some (d, _) \<Rightarrow> Inr d
            | None \<Rightarrow>
                Inl (ArgumentError (''String '' @ [CHR 0x27] @ astring @ [CHR 0x27]
                  @ '' does not match drilldown level pattern ''
                  @ [CHR 0x27] @ ''dimension@hierarchy:level'' @ [CHR 0x27]))))"

subsection \<open>Hierarchy\<close>

text \<open>
  Modelled from the spec: \<^verbatim>\<open>object_dict\<close> of metadata/base.py, which is not among the
  sources.  It keys the objects by name in an order-preserving mapping.  For a hierarchy's
  levels the spec says that duplicate names overwrite; for a dimension's hierarchies,
  where the caller passes an error message, that a duplicate name is a model error.
  \<open>error_message\<close> is the message already formatted but for the key.
\<close>

fun object_dict_from ::
  "('a \<Rightarrow> string) \<Rightarrow> (string \<Rightarrow> string) option \<Rightarrow> (string \<times> 'a) list \<Rightarrow> 'a list
   \<Rightarrow> error + (string \<times> 'a) list" where
  "object_dict_from name_of error_message ordered [] = Inr ordered"
| "object_dict_from name_of error_message ordered (obj # objects) =
     (if name_of obj \<in> set (map fst ordered) \<and> error_message \<noteq> None
      then Inl (ModelError ((the error_message) (name_of obj)))
      else object_dict_from name_of error_message
             (dict_set (name_of obj) obj ordered) objects)"

definition object_dict ::
  "('a \<Rightarrow> string) \<Rightarrow> (string \<Rightarrow> string) option \<Rightarrow> 'a list
   \<Rightarrow> error + (string \<times> 'a) list" where
  "object_dict name_of error_message objects =
     object_dict_from name_of error_message [] objects"

record 'd hierarchy =
  hier_name :: string
  hier_label :: "string option"
  hier_description :: "string option"
  hier_info :: "json option"
  hier_levels :: "(string \<times> 'd level) list"

text \<open>
  \<^verbatim>\<open>Hierarchy.__init__\<close>.  The check that no level is given as a string is a matter of
  the argument's type here.
\<close>

definition Hierarchy_init ::
  "string \<Rightarrow> 'd level list \<Rightarrow> string option \<Rightarrow> json option \<Rightarrow> string option
   \<Rightarrow> error + 'd hierarchy" where
  "Hierarchy_init name levels label info description =
     (if levels = []
      then Inl (ModelInconsistencyError
             (''Hierarchy level list should not be empty (in '' @ name @ '')''))
      else (case object_dict level_name None levels of
              Inl e \<Rightarrow> Inl e
            | Inr d \<Rightarrow>
                Inr \<lparr> hier_name = name, hier_label = label,
                      hier_description = description, hier_info = info,
                      hier_levels = d \<rparr>))"

text \<open>\<^verbatim>\<open>Hierarchy.levels\<close> and \<^verbatim>\<open>Hierarchy.level_names\<close>: the values and the keys.\<close>

definition levels :: "'d hierarchy \<Rightarrow> 'd level list" where
  "levels h = map snd (hier_levels h)"

definition level_names :: "'d hierarchy \<Rightarrow> string list" where
  "level_names h = map fst (hier_levels h)"

definition level_index :: "'d hierarchy \<Rightarrow> string \<Rightarrow> error + nat" where
  "level_index h name =
     (case index_of name (level_names h) of
        Some i \<Rightarrow> Inr i
      | None \<Rightarrow> Inl (HierarchyError (LevelNotInHierarchy name (hier_name h))))"

text \<open>
  \<^verbatim>\<open>Hierarchy.rollup(path, level)\<close>; \<^verbatim>\<open>path[0:last]\<close> is \<open>take last path\<close>, and a
  \<^verbatim>\<open>last\<close> of \<^verbatim>\<open>None\<close> gives the empty list.
\<close>

definition rollup :: "'d hierarchy \<Rightarrow> string list \<Rightarrow> 'd level option \<Rightarrow> error + string list" where
  "rollup h path level =
     (case (case level of
              Some l \<Rightarrow>
                (case level_index h (level_name l) of
                   Inl e \<Rightarrow> Inl e
                 | Inr i \<Rightarrow>
                     if i + 1 > length path
                     then Inl (HierarchyError (LevelDeeperThanPath (level_name l) path))
                     else Inr (Some (i + 1)))
            | None \<Rightarrow>
                if length path > 0 then Inr (Some (length path - 1)) else Inr None) of
        Inl e \<Rightarrow> Inl e
      | Inr None \<Rightarrow> Inr []
      | Inr (Some last') \<Rightarrow> Inr (take last' path))"

subsection \<open>Dimension\<close>

text \<open>
  A dimension refers to its master dimension, so it is a datatype.  Inside a dimension
  \<^verbatim>\<open>attribute.dimension\<close> is kept as the owner's name; the identity of the owning
  object is not modelled.
\<close>

datatype dimension = Dimension
  (dim_name: string)
  (dim_label: "string option")
  (dim_description: "string option")
  (dim_info: "json option")
  (dim_role: "string option")
  (dim_cardinality: "string option")
  (dim_category: "string option")
  (dim_master: "dimension option")
  (dim_nonadditive: "string option")
  (dim_levels: "(string \<times> string level) list")
  (dim_attributes: "(string \<times> string attribute) list")
  (dim_attributes_by_ref: "(string \<times> string attribute) list")
  (dim_hierarchies: "(string \<times> string hierarchy) list")
  (dim_default_hierarchy: "string hierarchy")
  (default_hierarchy_name: string)

definition DEFAULT_LEVEL_ROLES :: "(string \<times> string list) list" where
  "DEFAULT_LEVEL_ROLES =
     [(''time'', [''year'', ''quarter'', ''month'', ''day'', ''hour'', ''minute'',
                  ''second'', ''week'', ''weeknum'', ''dow'', ''isoyear'', ''isoweek'',
                  ''isoweekday''])]"

text \<open>
  Lines 849-857: the default roles of the dimension's role, and the levels whose name is
  one of them get their own name as role.
\<close>

definition default_roles :: "string option \<Rightarrow> string list" where
  "default_roles role =
     (case role of
        Some r \<Rightarrow> (case map_of DEFAULT_LEVEL_ROLES r of Some rs \<Rightarrow> rs | None \<Rightarrow> [])
      | None \<Rightarrow> [])"

definition set_default_role :: "string list \<Rightarrow> 'd level \<Rightarrow> 'd level" where
  "set_default_role roles l =
     (if roles \<noteq> [] \<and> level_name l \<in> set roles
      then l\<lparr> level_role := Some (level_name l) \<rparr> else l)"

text \<open>
  Lines 863-874, for one attribute: an attribute that has an owner is refused (the owner
  is another object than the dimension under construction), otherwise the dimension
  becomes its owner.
\<close>

definition claim_attribute :: "string \<Rightarrow> string attribute \<Rightarrow> error + string attribute" where
  "claim_attribute self_name a =
     (case attr_dimension a of
        Some other \<Rightarrow>
          Inl (ModelError (''Dimension '' @ [CHR 0x27] @ self_name @ [CHR 0x27]
                 @ '' can not claim attribute '' @ [CHR 0x27] @ attr_name a @ [CHR 0x27]
                 @ '' because it is owned by another dimension '' @ [CHR 0x27] @ other
                 @ [CHR 0x27] @ ''.''))
      | None \<Rightarrow> Inr (a\<lparr> attr_dimension := Some self_name \<rparr>))"

fun claim_attributes :: "string \<Rightarrow> string attribute list \<Rightarrow> error + string attribute list" where
  "claim_attributes self_name [] = Inr []"
| "claim_attributes self_name (a # as) =
     (case claim_attribute self_name a of
        Inl e \<Rightarrow> Inl e
      | Inr a' \<Rightarrow>
          (case claim_attributes self_name as of
             Inl e \<Rightarrow> Inl e
           | Inr as' \<Rightarrow> Inr (a' # as')))"

text \<open>
  The same loop over the levels: each level comes back with its attributes owned (its
  key, label and order attribute are among them and are owned with them).
\<close>

definition own_attribute :: "string \<Rightarrow> string attribute \<Rightarrow> string attribute" where
  "own_attribute self_name a = a\<lparr> attr_dimension := Some self_name \<rparr>"

fun claim_levels ::
  "string \<Rightarrow> (string \<times> string level) list \<Rightarrow> error + (string \<times> string level) list" where
  "claim_levels self_name [] = Inr []"
| "claim_levels self_name ((k, l) # ls) =
     (case claim_attributes self_name (level_attributes l) of
        Inl e \<Rightarrow> Inl e
      | Inr as \<Rightarrow>
          (case claim_levels self_name ls of
             Inl e \<Rightarrow> Inl e
           | Inr ls' \<Rightarrow>
               Inr ((k, l\<lparr> level_attributes := as,
                          level_key := own_attribute self_name (level_key l),
                          level_label_attribute :=
                            own_attribute self_name (level_label_attribute l),
                          level_order_attribute :=
                            own_attribute self_name (level_order_attribute l) \<rparr>) # ls')))"

definition duplicate_hierarchy :: "string \<Rightarrow> string \<Rightarrow> string" where
  "duplicate_hierarchy cube key =
     ''Duplicate hierarchy '' @ [CHR 0x27] @ key @ [CHR 0x27] @ '' in cube ''
       @ [CHR 0x27] @ cube @ [CHR 0x27]"

text \<open>
  Lines 834-842: exactly one of \<^verbatim>\<open>levels\<close> and \<^verbatim>\<open>attributes\<close> is given; attributes
  are wrapped in one level named after the dimension.
\<close>

definition given_levels ::
  "string \<Rightarrow> 'd level list option \<Rightarrow> 'd attribute list option \<Rightarrow> error + 'd level list" where
  "given_levels name levels' attributes =
     (let no_levels = (levels' = None \<or> levels' = Some []);
          no_attributes = (attributes = None \<or> attributes = Some [])
      in
      if no_levels \<and> no_attributes
        then Inl (ModelError (''No levels or attriutes specified for dimension '' @ name))
      else if \<not> no_levels \<and> \<not> no_attributes
        then Inl (ModelError ''Both levels and attributes specified'')
      else if \<not> no_attributes
        then (case Level_init name (the attributes) None None None None None None
                     None None None None of
                Inl e \<Rightarrow> Inl e
              | Inr level \<Rightarrow> Inr [level])
      else Inr (the levels'))"

text \<open>
  Lines 876-885: the hierarchies passed in, keyed by name with duplicates refused, or one
  hierarchy \<^verbatim>\<open>"default"\<close> over the dimension's levels.
\<close>

definition given_hierarchies ::
  "string \<Rightarrow> 'd hierarchy list option \<Rightarrow> 'd level list
   \<Rightarrow> error + (string \<times> 'd hierarchy) list" where
  "given_hierarchies name hierarchies self_levels =
     (if hierarchies \<noteq> None \<and> hierarchies \<noteq> Some []
      then object_dict hier_name (Some (duplicate_hierarchy name)) (the hierarchies)
      else (case Hierarchy_init ''default'' self_levels None None None of
              Inl e \<Rightarrow> Inl e
            | Inr default' \<Rightarrow> object_dict hier_name None [default']))"

text \<open>
  Lines 891-894: \<^verbatim>\<open>default_name = default_hierarchy_name or "default"\<close> and
  \<^verbatim>\<open>self._hierarchies.get(default_name, list(...values())[0])\<close>.  The fallback argument
  is evaluated first, an IndexError on an empty dictionary.
\<close>

definition default_name :: "string option \<Rightarrow> string" where
  "default_name default_hierarchy_name' =
     (if truthy default_hierarchy_name' then the default_hierarchy_name' else ''default'')"

definition select_default_hierarchy ::
  "(string \<times> 'd hierarchy) list \<Rightarrow> string option \<Rightarrow> error + 'd hierarchy" where
  "select_default_hierarchy self_hierarchies default_hierarchy_name' =
     (case self_hierarchies of
        [] \<Rightarrow> Inl IndexError
      | (_, first) # _ \<Rightarrow>
          (case map_of self_hierarchies (default_name default_hierarchy_name') of
             Some h \<Rightarrow> Inr h
           | None \<Rightarrow> Inr first))"

text \<open>
  \<^verbatim>\<open>Dimension.__init__\<close>, arguments in the order of the source.  As in
  \<^verbatim>\<open>Level.__init__\<close>, line 832 assigns \<^verbatim>\<open>self.nonadditive = nonadditive\<close> after the
  chain.  The hierarchies are kept as they are passed; the ownership written through the
  level objects they share with the dimension is not traced into them.
\<close>

definition Dimension_init ::
  "string \<Rightarrow> string level list option \<Rightarrow> string hierarchy list option \<Rightarrow> string option
   \<Rightarrow> string option \<Rightarrow> string option \<Rightarrow> json option \<Rightarrow> string option \<Rightarrow> string option
   \<Rightarrow> string option \<Rightarrow> dimension option \<Rightarrow> string option
   \<Rightarrow> string attribute list option \<Rightarrow> error + dimension" where
  "Dimension_init name levels' hierarchies default_hierarchy_name' label description info
      role cardinality category master nonadditive attributes =
     (case nonadditive_chain nonadditive of
        Inl e \<Rightarrow> Inl e
      | Inr _ \<Rightarrow>
     (case given_levels name levels' attributes of
        Inl e \<Rightarrow> Inl e
      | Inr levels'' \<Rightarrow>
     (case object_dict level_name None levels'' of
        Inl e \<Rightarrow> Inl e
      | Inr self_levels \<Rightarrow>
     (case claim_levels name
             (map (\<lambda>(k, l). (k, set_default_role (default_roles role) l)) self_levels) of
        Inl e \<Rightarrow> Inl e
      | Inr owned_levels \<Rightarrow>
     (case given_hierarchies name hierarchies (map snd owned_levels) of
        Inl e \<Rightarrow> Inl e
      | Inr self_hierarchies \<Rightarrow>
     (case select_default_hierarchy self_hierarchies default_hierarchy_name' of
        Inl e \<Rightarrow> Inl e
      | Inr hierarchy \<Rightarrow>
          Inr (Dimension name label description info role cardinality category master
                 nonadditive owned_levels
                 (dict_of (map (\<lambda>a. (attr_name a, a))
                    (concat (map (\<lambda>(k, l). level_attributes l) owned_levels))))
                 (dict_of (map (\<lambda>a. (attr_ref a, a))
                    (concat (map (\<lambda>(k, l). level_attributes l) owned_levels))))
                 self_hierarchies hierarchy (hier_name hierarchy))))))))"

text \<open>
  \<^verbatim>\<open>Dimension.is_flat\<close> and \<^verbatim>\<open>Dimension.has_details\<close>: a dimension with a master
  answers with the master's value.
\<close>

fun is_flat :: "dimension \<Rightarrow> bool" where
  "is_flat (Dimension n lb ds nf r c cat master na lvls ats atr hs dh dhn) =
     (case master of
        Some m \<Rightarrow> is_flat m
      | None \<Rightarrow> length lvls = 1)"

fun has_details :: "dimension \<Rightarrow> bool" where
  "has_details (Dimension n lb ds nf r c cat master na lvls ats atr hs dh dhn) =
     (case master of
        Some m \<Rightarrow> has_details m
      | None \<Rightarrow> list_ex (\<lambda>(k, l). level_has_details l) lvls)"

section \<open>SQL expression compiler (sql/expressions.py)\<close>

definition SQL_FUNCTIONS :: "string list" where
  "SQL_FUNCTIONS =
     [''lower'', ''upper'', ''left'', ''right'', ''substr'', ''lpad'', ''rpad'',
      ''replace'', ''concat'', ''repeat'', ''position'',
      ''round'', ''trunc'', ''floor'', ''ceil'', ''mod'', ''remainder'', ''sign'',
      ''min'', ''max'', ''pow'', ''exp'', ''log'', ''log10'', ''sqrt'', ''cos'', ''sin'',
      ''tan'',
      ''extract'',
      ''coalesce'', ''nullif'', ''case'']"

definition SQL_AGGREGATE_FUNCTIONS :: "string list" where
  "SQL_AGGREGATE_FUNCTIONS =
     [''sum'', ''min'', ''max'', ''avg'', ''stddev'', ''variance'', ''count'']"

definition SQL_ALL_FUNCTIONS :: "string list" where
  "SQL_ALL_FUNCTIONS = SQL_FUNCTIONS @ SQL_AGGREGATE_FUNCTIONS"

definition SQL_VARIABLES :: "string list" where
  "SQL_VARIABLES = [''current_date'', ''current_time'', ''local_date'', ''local_time'']"

text \<open>
  The SQL expressions the compiler builds: a column of the seed table, a bound parameter
  for a literal, the value of a named parameter, the operators, and a call
  \<^verbatim>\<open>sql.func.<name>(args)\<close>.
\<close>

datatype sqlexpr =
    Column string
  | BindParam literal
  | ParamValue literal
  | BinaryExpression string sqlexpr sqlexpr
  | And sqlexpr sqlexpr
  | Or sqlexpr sqlexpr
  | UnaryExpression string sqlexpr
  | Not sqlexpr
  | FunctionCall string "sqlexpr list"

record SQLExpressionContext =
  columns :: "(string \<times> sqlexpr) list"
  parameters :: "(string \<times> sqlexpr) list"
  label :: "string option"


definition resolve :: "SQLExpressionContext \<Rightarrow> string \<Rightarrow> error + sqlexpr" where
  "resolve self variable =
     (if variable \<in> set (map fst (columns self))
        then Inr (the (map_of (columns self) variable))
      else if variable \<in> set (map fst (parameters self))
        then Inr (the (map_of (parameters self) variable))
      else if variable \<in> set SQL_VARIABLES
        then Inr (FunctionCall variable [])
      else Inl (ExpressionError
             (''Unknown attribute, variable or parameter '' @ [CHR 0x27] @ variable
                @ [CHR 0x27]
                @ (if truthy (label self) then '' in '' @ the (label self) else []))))"

text \<open>\<^verbatim>\<open>SQLExpressionContext.function\<close>: the generator \<^verbatim>\<open>sql.func.<name>\<close>.\<close>

definition function' :: "SQLExpressionContext \<Rightarrow> string \<Rightarrow> error + string" where
  "function' self name =
     (if name \<notin> set SQL_ALL_FUNCTIONS
      then Inl (ExpressionError (''Unknown function '' @ [CHR 0x27] @ name @ [CHR 0x27]))
      else Inr name)"


subsection \<open>SQLExpressionCompiler\<close>

definition compile_literal :: "SQLExpressionContext \<Rightarrow> literal \<Rightarrow> sqlexpr" where
  "compile_literal context lit = BindParam lit"

definition compile_binary ::
  "SQLExpressionContext \<Rightarrow> string \<Rightarrow> sqlexpr \<Rightarrow> sqlexpr \<Rightarrow> error + sqlexpr" where
  "compile_binary context operator op1 op2 =
     (if operator \<in> set [''*'', ''/'', ''%'', ''+'', ''-'', ''&'', ''|'', ''<'', ''<='',
                            ''>'', ''>='', ''!='']
        then Inr (BinaryExpression operator op1 op2)
      else if operator = ''='' then Inr (BinaryExpression ''=='' op1 op2)
      else if operator = ''and'' then Inr (And op1 op2)
      else if operator = ''or'' then Inr (Or op1 op2)
      else Inl (SyntaxError (''Unknown operator '' @ [CHR 0x27] @ operator @ [CHR 0x27])))"

definition compile_variable :: "SQLExpressionContext \<Rightarrow> string \<Rightarrow> error + sqlexpr" where
  "compile_variable context name = resolve context name"

definition compile_unary ::
  "SQLExpressionContext \<Rightarrow> string \<Rightarrow> sqlexpr \<Rightarrow> error + sqlexpr" where
  "compile_unary context operator operand =
     (if operator \<in> set [''-'', ''+'', ''~''] then Inr (UnaryExpression operator operand)
      else if operator = ''not'' then Inr (Not operand)
      else Inl (SyntaxError
             (''Unknown unary operator '' @ [CHR 0x27] @ operator @ [CHR 0x27])))"

definition compile_function ::
  "SQLExpressionContext \<Rightarrow> string \<Rightarrow> sqlexpr list \<Rightarrow> error + sqlexpr" where
  "compile_function context func args =
     (case function' context func of
        Inl e \<Rightarrow> Inl e
      | Inr f \<Rightarrow> Inr (FunctionCall f args))"

text \<open>
  Modelled from the spec: the tree walk of the expression framework
  (\<^verbatim>\<open>expressions.Compiler.compile\<close>, a library outside the repository).  It compiles
  the operands of a node from left to right and then hands the node to the method of
  \<^verbatim>\<open>SQLExpressionCompiler\<close> for its kind; a function call is applied to its already
  compiled arguments.  The first exception ends the walk.
\<close>

fun compile :: "SQLExpressionContext \<Rightarrow> expr \<Rightarrow> error + sqlexpr"
  and compile_list :: "SQLExpressionContext \<Rightarrow> expr list \<Rightarrow> error + sqlexpr list" where
  "compile context (Literal lit) = Inr (compile_literal context lit)"
| "compile context (Variable name) = compile_variable context name"
| "compile context (Binary operator e1 e2) =
     (case compile context e1 of
        Inl e \<Rightarrow> Inl e
      | Inr op1 \<Rightarrow>
          (case compile context e2 of
             Inl e \<Rightarrow> Inl e
           | Inr op2 \<Rightarrow> compile_binary context operator op1 op2))"
| "compile context (Unary operator e1) =
     (case compile context e1 of
        Inl e \<Rightarrow> Inl e
      | Inr operand \<Rightarrow> compile_unary context operator operand)"
| "compile context (Function func args) =
     (case compile_list context args of
        Inl e \<Rightarrow> Inl e
      | Inr cargs \<Rightarrow> compile_function context func cargs)"
| "compile_list context [] = Inr []"
| "compile_list context (a # as) =
     (case compile context a of
        Inl e \<Rightarrow> Inl e
      | Inr c \<Rightarrow>
          (case compile_list context as of
             Inl e \<Rightarrow> Inl e
           | Inr cs \<Rightarrow> Inr (c # cs)))"

subsection \<open>compile_attributes\<close>






section \<open>Logical to physical mapping (sql/mapper.py)\<close>

text \<open>
  A value of the naming dictionary: \<^verbatim>\<open>Union[str, bool, None]\<close>.  \<open>or_empty v\<close> is the
  text that \<^verbatim>\<open>"{}".format(v or "")\<close> gives, \<open>py_or a b\<close> is \<^verbatim>\<open>a or b\<close>.
\<close>

datatype naming_value = NNone | NStr string | NBool bool

definition naming_truthy :: "naming_value \<Rightarrow> bool" where
  "naming_truthy v = (case v of NNone \<Rightarrow> False | NStr s \<Rightarrow> s \<noteq> [] | NBool b \<Rightarrow> b)"

definition or_empty :: "naming_value \<Rightarrow> string" where
  "or_empty v = (case v of NNone \<Rightarrow> [] | NStr s \<Rightarrow> s
                 | NBool b \<Rightarrow> (if b then ''True'' else []))"

definition py_or :: "naming_value \<Rightarrow> naming_value \<Rightarrow> naming_value" where
  "py_or a b = (if naming_truthy a then a else b)"

definition DEFAULT_FACT_KEY :: string where
  "DEFAULT_FACT_KEY = ''id''"

definition DEFAULT_DIMENSION_KEY :: string where
  "DEFAULT_DIMENSION_KEY = ''id''"

definition NAMING_DEFAULTS :: "(string \<times> naming_value) list" where
  "NAMING_DEFAULTS =
     [(''fact_prefix'', NNone), (''fact_suffix'', NNone),
      (''dimension_prefix'', NNone), (''dimension_suffix'', NNone),
      (''dimension_key_prefix'', NNone), (''dimension_key_suffix'', NNone),
      (''denormalized_prefix'', NNone), (''denormalized_suffix'', NNone),
      (''aggregated_prefix'', NNone), (''aggregated_suffix'', NNone),
      (''fact_key'', NStr DEFAULT_FACT_KEY),
      (''dimension_key'', NStr DEFAULT_DIMENSION_KEY),
      (''explicit_dimension_primary'', NBool False),
      (''schema'', NNone), (''fact_schema'', NNone), (''dimension_schema'', NNone),
      (''aggregate_schema'', NNone)]"

text \<open>
  \<^verbatim>\<open>naming.get(key, NAMING_DEFAULTS.get(key))\<close>; a key in neither dictionary gives
  \<^verbatim>\<open>None\<close>.
\<close>

definition naming_default :: "(string \<times> naming_value) list \<Rightarrow> string \<Rightarrow> naming_value" where
  "naming_default naming key =
     (case map_of naming key of
        Some v \<Rightarrow> v
      | None \<Rightarrow> (case map_of NAMING_DEFAULTS key of Some v \<Rightarrow> v | None \<Rightarrow> NNone))"

text \<open>The fields of a cube that the mapper reads (metadata/cube.py is not among the sources).\<close>

record cube =
  cube_name :: string
  cube_fact :: "string option"
  cube_mappings :: "(string \<times> json) list option"

text \<open>A \<^verbatim>\<open>ColumnReference(column, table, schema)\<close>.\<close>

record ColumnReference =
  cr_schema :: naming_value
  cr_table :: string
  cr_column :: string

text \<open>
  The state of a \<^verbatim>\<open>Mapper\<close>.  A compiled pattern is kept as the pattern text it was
  compiled from.
\<close>

record Mapper =
  mapper_locale :: "string option"
  mappings :: "(string \<times> json) list"
  dimension_prefix :: naming_value
  dimension_suffix :: naming_value
  fact_prefix :: naming_value
  fact_suffix :: naming_value
  aggregated_prefix :: naming_value
  aggregated_suffix :: naming_value
  dimension_key_prefix :: naming_value
  dimension_key_suffix :: naming_value
  schema :: naming_value
  fact_schema :: naming_value
  dimension_schema :: naming_value
  aggregate_schema :: naming_value
  dim_name_pattern :: string
  fact_name_pattern :: string
  dim_key_pattern :: string
  fact_name :: string

definition table_name :: "naming_value \<Rightarrow> string \<Rightarrow> naming_value \<Rightarrow> string" where
  "table_name prefix name suffix = or_empty prefix @ name @ or_empty suffix"

definition dimension_table_name :: "Mapper \<Rightarrow> string \<Rightarrow> string" where
  "dimension_table_name self name =
     table_name (dimension_prefix self) name (dimension_suffix self)"

definition aggregated_table_name :: "Mapper \<Rightarrow> string \<Rightarrow> string" where
  "aggregated_table_name self name =
     table_name (aggregated_prefix self) name (aggregated_suffix self)"

text \<open>
  The pattern text \<^verbatim>\<open>"^{}(?P<name>.*){}$".format(prefix or "", suffix or "")\<close>.
\<close>

definition name_pattern :: "naming_value \<Rightarrow> naming_value \<Rightarrow> string" where
  "name_pattern prefix suffix =
     ''^'' @ or_empty prefix @ ''(?P<name>.*)'' @ or_empty suffix @ ''$''"

text \<open>
  \<^verbatim>\<open>Mapper.__init__\<close>.  \<open>re_compile\<close> stands for \<^verbatim>\<open>re.compile\<close> of the standard
  library: it says whether the pattern text compiles, and a text that does not raises
  \<^verbatim>\<open>re.error\<close> (a prefix or suffix is put into the pattern as it is, so one such as
  \<^verbatim>\<open>dim(\<close> does not).  The three patterns are compiled in the order of the source, after
  the naming fields are read and before the fact name is set;
  \<^verbatim>\<open>fact_table_name(cube.name)\<close> is written out on the two prefixes just read.
\<close>

definition Mapper_init ::
  "(string \<Rightarrow> bool) \<Rightarrow> cube \<Rightarrow> (string \<times> naming_value) list \<Rightarrow> string option
   \<Rightarrow> error + Mapper" where
  "Mapper_init re_compile c naming locale' =
     (let dim_pattern = name_pattern (naming_default naming ''dimension_prefix'')
                          (naming_default naming ''dimension_suffix'');
          fact_pattern = name_pattern (naming_default naming ''fact_prefix'')
                           (naming_default naming ''fact_suffix'');
          key_pattern = name_pattern (naming_default naming ''dimension_key_prefix'')
                          (naming_default naming ''dimension_key_suffix'')
      in
      if \<not> re_compile dim_pattern then Inl (ReError dim_pattern)
      else if \<not> re_compile fact_pattern then Inl (ReError fact_pattern)
      else if \<not> re_compile key_pattern then Inl (ReError key_pattern)
      else Inr
     \<lparr> mapper_locale = locale',
       mappings = (case cube_mappings c of None \<Rightarrow> [] | Some m \<Rightarrow> m),
       dimension_prefix = naming_default naming ''dimension_prefix'',
       dimension_suffix = naming_default naming ''dimension_suffix'',
       fact_prefix = naming_default naming ''fact_prefix'',
       fact_suffix = naming_default naming ''fact_suffix'',
       aggregated_prefix = naming_default naming ''aggregated_prefix'',
       aggregated_suffix = naming_default naming ''aggregated_suffix'',
       dimension_key_prefix = naming_default naming ''dimension_key_prefix'',
       dimension_key_suffix = naming_default naming ''dimension_key_suffix'',
       schema = naming_default naming ''schema'',
       fact_schema = naming_default naming ''fact_schema'',
       dimension_schema = naming_default naming ''dimension_schema'',
       aggregate_schema = naming_default naming ''aggregate_schema'',
       dim_name_pattern = dim_pattern,
       fact_name_pattern = fact_pattern,
       dim_key_pattern = key_pattern,
       fact_name =
         (if truthy (cube_fact c) then the (cube_fact c)
          else table_name (naming_default naming ''fact_prefix'') (cube_name c)
                 (naming_default naming ''fact_suffix'')) \<rparr>)"

definition fact_table_name :: "Mapper \<Rightarrow> string \<Rightarrow> string" where
  "fact_table_name self name = table_name (fact_prefix self) name (fact_suffix self)"

text \<open>
  The locale both \<^verbatim>\<open>__getitem__\<close> methods pick for a localizable attribute: the
  mapper's when it is one of the attribute's, else the attribute's first
  (\<^verbatim>\<open>attribute.locales[0]\<close>, an IndexError on an empty list).
\<close>

definition pick_locale :: "Mapper \<Rightarrow> 'd attribute \<Rightarrow> error + string" where
  "pick_locale self attr =
     (case mapper_locale self of
        Some l \<Rightarrow>
          (if l \<in> set (attr_locales attr) then Inr l
           else (case attr_locales attr of [] \<Rightarrow> Inl IndexError | l0 # _ \<Rightarrow> Inr l0))
      | None \<Rightarrow> (case attr_locales attr of [] \<Rightarrow> Inl IndexError | l0 # _ \<Rightarrow> Inr l0))"

text \<open>\<^verbatim>\<open>Mapper.attribute_table\<close>: the pair \<^verbatim>\<open>(schema, table)\<close>.\<close>

definition attribute_table :: "Mapper \<Rightarrow> dimension attribute \<Rightarrow> naming_value \<times> string" where
  "attribute_table self attr =
     (case attr_dimension attr of
        Some dimension \<Rightarrow>
          (py_or (dimension_schema self) (schema self),
           if is_flat dimension \<and> \<not> has_details dimension then fact_name self
           else dimension_table_name self (dim_name dimension))
      | None \<Rightarrow> (schema self, fact_name self))"

text \<open>
  \<^verbatim>\<open>Mapper.__getitem__\<close>.  \<open>is_localizable\<close> stands for the attribute's method of that
  name (metadata/attributes.py is not among the sources).
\<close>

definition Mapper_getitem ::
  "(dimension attribute \<Rightarrow> bool) \<Rightarrow> Mapper \<Rightarrow> dimension attribute
   \<Rightarrow> error + ColumnReference" where
  "Mapper_getitem is_localizable self attr =
     (case (if is_localizable attr
            then (case pick_locale self attr of
                    Inl e \<Rightarrow> Inl e
                  | Inr l \<Rightarrow> Inr (attr_name attr @ ''_'' @ l))
            else Inr (attr_name attr)) of
        Inl e \<Rightarrow> Inl e
      | Inr column_name \<Rightarrow>
          (case attribute_table self attr of
             (schema', table) \<Rightarrow>
               Inr \<lparr> cr_schema = schema', cr_table = table, cr_column = column_name \<rparr>))"

definition has_expression_message :: "string \<Rightarrow> string" where
  "has_expression_message name =
     ''Attribute '' @ [CHR 0x27] @ name @ [CHR 0x27]
       @ '' has an expression, it can not have a direct physical representation''"

definition DenormalizedMapper_getitem ::
  "(dimension attribute \<Rightarrow> bool) \<Rightarrow> Mapper \<Rightarrow> dimension attribute
   \<Rightarrow> error + ColumnReference" where
  "DenormalizedMapper_getitem is_localizable self attr =
     (if attr_expression attr \<noteq> None
      then Inl (ModelError (has_expression_message (attr_name attr)))
      else Mapper_getitem is_localizable self attr)"

text \<open>
  \<^verbatim>\<open>StarSchemaMapper.__getitem__\<close>.  \<open>localized_ref\<close> stands for the attribute's method
  and \<open>from_dict\<close> for \<^verbatim>\<open>ColumnReference.from_dict\<close> (metadata/physical.py), neither
  among the sources.  A mapping whose value is \<^verbatim>\<open>None\<close> counts as no mapping.
\<close>

definition StarSchemaMapper_getitem ::
  "(dimension attribute \<Rightarrow> bool) \<Rightarrow> (dimension attribute \<Rightarrow> string option \<Rightarrow> string)
   \<Rightarrow> (json \<Rightarrow> error + ColumnReference) \<Rightarrow> Mapper \<Rightarrow> dimension attribute
   \<Rightarrow> error + ColumnReference" where
  "StarSchemaMapper_getitem is_localizable localized_ref from_dict self attr =
     (if attr_expression attr \<noteq> None
      then Inl (ModelError (has_expression_message (attr_name attr)))
      else
     (case (if is_localizable attr
            then (case pick_locale self attr of
                    Inl e \<Rightarrow> Inl e
                  | Inr l \<Rightarrow> Inr (Some l))
            else Inr None) of
        Inl e \<Rightarrow> Inl e
      | Inr locale' \<Rightarrow>
          (let logical = localized_ref attr locale';
               physical = (case map_of (mappings self) logical of
                             None \<Rightarrow> JNull | Some p \<Rightarrow> p)
           in if physical \<noteq> JNull then from_dict physical
              else Mapper_getitem is_localizable self attr)))"

section \<open>Extension registry (ext.py)\<close>

definition BUILTIN_EXTENSIONS :: "(string \<times> (string \<times> string) list) list" where
  "BUILTIN_EXTENSIONS =
     [(''authenticators'',
        [(''admin_admin'', ''cubes.server.auth:AdminAdminAuthenticator''),
         (''pass_parameter'', ''cubes.server.auth:PassParameterAuthenticator''),
         (''http_basic_proxy'', ''cubes.server.auth:HTTPBasicProxyAuthenticator'')]),
      (''authorizers'',
        [(''simple'', ''cubes.auth:SimpleAuthorizer'')]),
      (''browsers'',
        [(''sql'', ''cubes.sql.browser:SQLBrowser''),
         (''slicer'', ''cubes.server.browser:SlicerBrowser'')]),
      (''formatters'',
        [(''text_table'', ''cubes.formatters:TextTableFormatter''),
         (''simple_data_table'', ''cubes.formatters:SimpleDataTableFormatter''),
         (''text_data_table'', ''cubes.formatters:TextDataTableFormatter''),
         (''cross_data_table'', ''cubes.formatters:CrossTableFormatter''),
         (''html_cross_data_table'', ''cubes.formatters:HTMLCrossTableFormatter''),
         (''simple_html_table'', ''cubes.formatters:SimpleHtmlTableFormatter''),
         (''rickshaw_multi_series'', ''cubes.formatters:RickshawMultiSeriesFormatter'')]),
      (''providers'',
        [(''default'', ''cubes.providers:StaticModelProvider''),
         (''slicer'', ''cubes.server.store:SlicerProvider'')]),
      (''request_log_handlers'',
        [(''default'', ''cubes.server.logging:DefaultRequestLogger''),
         (''csv'', ''cubes.server.logging:CSVRequestLogger''),
         (''json'', ''cubes.server.logging:JSONRequestLogger''),
         (''sql'', ''cubes.sql.logging:SQLRequestLogger'')]),
      (''stores'',
        [(''sql'', ''cubes.sql.store:SQLStore''),
         (''slicer'', ''cubes.server.store:SlicerStore'')])]"

definition DEFAULT_OPTIONS :: "(string \<times> (string \<times> string) list list) list" where
  "DEFAULT_OPTIONS = []"

text \<open>
  A factory as the registry sees it: the path it was loaded from and its
  \<^verbatim>\<open>__options__\<close>, a list of option dictionaries (absent when the factory has no such
  attribute).
\<close>

record factory =
  factory_path :: string
  factory_options :: "(string \<times> string) list list option"

text \<open>An \<^verbatim>\<open>_Extension\<close>; \<open>ext_entry\<close> is the name of its entry point, if it has one.\<close>

record extension =
  ext_type :: string
  ext_entry :: "string option"
  ext_name :: string
  ext_options :: "(string \<times> (string \<times> string) list) list"
  ext_option_types :: "(string \<times> string) list"
  ext_factory :: "factory option"

definition Extension_init :: "string \<Rightarrow> string option \<Rightarrow> string option \<Rightarrow> extension" where
  "Extension_init type' entry name =
     \<lparr> ext_type = type', ext_entry = entry,
       ext_name = (if truthy name then the name
                   else (case entry of Some n \<Rightarrow> n | None \<Rightarrow> [])),
       ext_options = [], ext_option_types = [], ext_factory = None \<rparr>"

text \<open>
  The loop of \<^verbatim>\<open>set_factory\<close> over the option dictionaries: each is stored under its
  \<^verbatim>\<open>"name"\<close> (a KeyError without one), with its \<^verbatim>\<open>"type"\<close> or \<^verbatim>\<open>"string"\<close>.
\<close>

fun set_options ::
  "(string \<times> string) list list \<Rightarrow> (string \<times> (string \<times> string) list) list
   \<Rightarrow> (string \<times> string) list
   \<Rightarrow> error + (string \<times> (string \<times> string) list) list \<times> (string \<times> string) list" where
  "set_options [] options option_types = Inr (options, option_types)"
| "set_options (option # rest) options option_types =
     (case map_of option ''name'' of
        None \<Rightarrow> Inl (KeyError ''name'')
      | Some name \<Rightarrow>
          set_options rest (dict_set name option options)
            (dict_set name
               (case map_of option ''type'' of Some t \<Rightarrow> t | None \<Rightarrow> ''string'')
               option_types))"

definition set_factory :: "extension \<Rightarrow> factory \<Rightarrow> error + extension" where
  "set_factory self f =
     (let defaults = (case map_of DEFAULT_OPTIONS (ext_type self) of
                        Some d \<Rightarrow> d | None \<Rightarrow> []);
          options = (case factory_options f of Some os \<Rightarrow> os | None \<Rightarrow> [])
      in case set_options (defaults @ options) [] (ext_option_types self) of
           Inl e \<Rightarrow> Inl e
         | Inr (os, ts) \<Rightarrow>
             Inr (self\<lparr> ext_factory := Some f, ext_options := os,
                        ext_option_types := ts \<rparr>))"

text \<open>An \<^verbatim>\<open>ExtensionFinder\<close>: its type, its entry point group, its cache and its builtins.\<close>

record ExtensionFinder =
  finder_type :: string
  group :: string
  extensions :: "(string \<times> extension) list"
  builtins :: "(string \<times> string) list"

definition ExtensionFinder_init :: "string \<Rightarrow> ExtensionFinder" where
  "ExtensionFinder_init type' =
     \<lparr> finder_type = type', group = ''cubes.'' @ type', extensions = [],
       builtins = (case map_of BUILTIN_EXTENSIONS type' of Some b \<Rightarrow> b | None \<Rightarrow> []) \<rparr>"

text \<open>
  \<^verbatim>\<open>ExtensionFinder.builtin(name)\<close>, returning the extension (or \<^verbatim>\<open>None\<close>) and the
  finder with its cache.  \<open>load\<close> stands for \<^verbatim>\<open>getattr(_load_module(modname), attr)\<close>,
  the import of the module and the lookup of the factory in it.
\<close>

definition builtin ::
  "(string \<Rightarrow> string \<Rightarrow> error + factory) \<Rightarrow> ExtensionFinder \<Rightarrow> string
   \<Rightarrow> error + (extension option \<times> ExtensionFinder)" where
  "builtin load self name =
     (case map_of (builtins self) name of
        None \<Rightarrow> Inr (None, self)
      | Some ext_mod \<Rightarrow>
          (case split (CHR '':'') ext_mod of
             [modname, attr] \<Rightarrow>
               (case load modname attr of
                  Inl e \<Rightarrow> Inl e
                | Inr f \<Rightarrow>
                    (case set_factory (Extension_init (finder_type self) None (Some name)) f of
                       Inl e \<Rightarrow> Inl e
                     | Inr ext \<Rightarrow>
                         Inr (Some ext,
                              self\<lparr> extensions :=
                                      dict_set name ext (extensions self) \<rparr>)))
           | _ \<Rightarrow> Inl (ValueError ''unpack'')))"

text \<open>
  \<^verbatim>\<open>ExtensionFinder._get(name)\<close>.  When neither the cache nor the builtins have the
  name, the source stops in the debugger (\<^verbatim>\<open>pdb.set_trace()\<close>) and then raises
  \<^verbatim>\<open>Exception("nono")\<close>; the discovery and the \<^verbatim>\<open>InternalError\<close> written after that
  statement are never reached.  \<open>debugger_continues\<close> says whether the debugger session
  is left with a continue (otherwise it is quit, which raises \<^verbatim>\<open>BdbQuit\<close>).
\<close>

definition get' ::
  "(string \<Rightarrow> string \<Rightarrow> error + factory) \<Rightarrow> bool \<Rightarrow> ExtensionFinder \<Rightarrow> string
   \<Rightarrow> error + (extension \<times> ExtensionFinder)" where
  "get' load debugger_continues self name =
     (case map_of (extensions self) name of
        Some ext \<Rightarrow> Inr (ext, self)
      | None \<Rightarrow>
          (case builtin load self name of
             Inl e \<Rightarrow> Inl e
           | Inr (Some ext, self') \<Rightarrow> Inr (ext, self')
           | Inr (None, self') \<Rightarrow>
               if debugger_continues then Inl (Exception ''nono'') else Inl BdbQuit))"

text \<open>
  What the unreachable tail of \<^verbatim>\<open>_get\<close> would raise for a name that the discovery
  does not find either.
\<close>

definition unknown_extension :: "string \<Rightarrow> string \<Rightarrow> error" where
  "unknown_extension type' name =
     InternalError (''Unknown '' @ [CHR 0x27] @ type' @ [CHR 0x27] @ '' extension ''
       @ [CHR 0x27] @ name @ [CHR 0x27])"

text \<open>\<^verbatim>\<open>ExtensionFinder.factory(name)\<close>.\<close>

definition factory_of ::
  "(string \<Rightarrow> string \<Rightarrow> error + factory) \<Rightarrow> bool \<Rightarrow> ExtensionFinder \<Rightarrow> string
   \<Rightarrow> error + (factory option \<times> ExtensionFinder)" where
  "factory_of load debugger_continues self name =
     (case get' load debugger_continues self name of
        Inl e \<Rightarrow> Inl e
      | Inr (ext, self') \<Rightarrow> Inr (ext_factory ext, self'))"

section \<open>Notions used in the statements about compilation\<close>







text \<open>The keys of an optional dictionary argument (\<^verbatim>\<open>None\<close> has none).\<close>

definition keys :: "('k \<times> 'v) list option \<Rightarrow> 'k set" where
  "keys d = (case d of None \<Rightarrow> {} | Some ps \<Rightarrow> fst ` set ps)"

section \<open>Example values\<close>

text \<open>
  Concrete inputs for the evaluations below: an attribute with nothing but a name, a
  level of such attributes as \<^verbatim>\<open>Level(name, attributes)\<close> builds it, and the hierarchy
  year, quarter, month of a date dimension.
\<close>

definition plain_attribute :: "string \<Rightarrow> 'd attribute" where
  "plain_attribute n =
     \<lparr> attr_name = n, attr_ref = n, attr_dimension = None, attr_expression = None,
       attr_function = None, attr_locales = [] \<rparr>"

definition plain_level :: "string \<Rightarrow> string list \<Rightarrow> 'd level" where
  "plain_level n attrs =
     \<lparr> level_name = n, level_label = None, level_description = None, level_info = None,
       level_cardinality = None, level_role = None,
       level_attributes = map plain_attribute attrs, level_nonadditive = None,
       level_key = plain_attribute (hd attrs),
       level_label_attribute = plain_attribute (if length attrs > 1 then attrs ! 1 else hd attrs),
       level_order_attribute = plain_attribute (hd attrs), level_order = None \<rparr>"

definition date_levels :: "'d level list" where
  "date_levels =
     [plain_level ''year'' [''year''], plain_level ''quarter'' [''quarter''],
      plain_level ''month'' [''month'', ''month_name'']]"

definition date_hierarchy :: "'d hierarchy" where
  "date_hierarchy =
     \<lparr> hier_name = ''ymd'', hier_label = None, hier_description = None, hier_info = None,
       hier_levels = map (\<lambda>l. (level_name l, l)) date_levels \<rparr>"

text \<open>
  Two more hierarchies of the date dimension: one over the year alone that is named
  \<^verbatim>\<open>default\<close>, and one over year and quarter named \<^verbatim>\<open>yq\<close>.
\<close>

definition year_hierarchy :: "'d hierarchy" where
  "year_hierarchy =
     \<lparr> hier_name = ''default'', hier_label = None, hier_description = None,
       hier_info = None, hier_levels = [(''year'', plain_level ''year'' [''year''])] \<rparr>"

definition quarter_hierarchy :: "'d hierarchy" where
  "quarter_hierarchy =
     \<lparr> hier_name = ''yq'', hier_label = None, hier_description = None, hier_info = None,
       hier_levels = [(''year'', plain_level ''year'' [''year'']),
                      (''quarter'', plain_level ''quarter'' [''quarter''])] \<rparr>"

text \<open>
  A compilation context with one column, two parameters (one of them under the column's
  name) and a label; an attribute derived by an expression; an aggregate lookup that knows
  no function.
\<close>

definition sales_context :: SQLExpressionContext where
  "sales_context =
     \<lparr> columns = [(''amount'', Column ''amount'')],
       parameters = [(''rate'', ParamValue (IntLit 2)), (''amount'', ParamValue (IntLit 0))],
       label = Some ''sales'' \<rparr>"

definition derived_attribute :: "string \<Rightarrow> expr \<Rightarrow> 'd attribute" where
  "derived_attribute n e =
     \<lparr> attr_name = n, attr_ref = n, attr_dimension = None, attr_expression = Some e,
       attr_function = None, attr_locales = [] \<rparr>"


text \<open>
  For the mapper: a dimension as \<^verbatim>\<open>Dimension(name, attributes=...)\<close> builds it, an
  attribute owned by a dimension, sample implementations of the attribute methods and of
  \<^verbatim>\<open>ColumnReference.from_dict\<close> that the mapper takes as arguments, and the mapper of a
  cube \<^verbatim>\<open>sales\<close> with the dimension prefix \<^verbatim>\<open>dim_\<close> and one explicit mapping.
\<close>

definition flat_dimension :: "string \<Rightarrow> string list \<Rightarrow> dimension" where
  "flat_dimension n attrs =
     projr (Dimension_init n None None None None None None None None None None None
              (Some (map plain_attribute attrs)))"

definition owned_attribute :: "string \<Rightarrow> dimension \<Rightarrow> dimension attribute" where
  "owned_attribute n d =
     \<lparr> attr_name = n, attr_ref = dim_name d @ ''.'' @ n, attr_dimension = Some d,
       attr_expression = None, attr_function = None, attr_locales = [] \<rparr>"

definition has_locales :: "'d attribute \<Rightarrow> bool" where
  "has_locales a = (attr_locales a \<noteq> [])"

definition ref_with_locale :: "'d attribute \<Rightarrow> string option \<Rightarrow> string" where
  "ref_with_locale a l = attr_ref a @ (case l of None \<Rightarrow> [] | Some l' \<Rightarrow> ''.'' @ l')"

definition reference_from_dict :: "json \<Rightarrow> error + ColumnReference" where
  "reference_from_dict p =
     (case p of
        JDict d \<Rightarrow>
          (case (map_of d ''table'', map_of d ''column'') of
             (Some (JStr t), Some (JStr c)) \<Rightarrow>
               Inr \<lparr> cr_schema = (case map_of d ''schema'' of Some (JStr s) \<Rightarrow> NStr s
                                    | _ \<Rightarrow> NNone),
                     cr_table = t, cr_column = c \<rparr>
           | _ \<Rightarrow> Inl (KeyError ''column''))
      | _ \<Rightarrow> Inl (TypeError ''from_dict''))"

definition sales_cube :: cube where
  "sales_cube =
     \<lparr> cube_name = ''sales'', cube_fact = None,
       cube_mappings =
         Some [(''customer.name'',
                JDict [(''table'', JStr ''dim_customer''), (''column'', JStr ''name'')])] \<rparr>"

text \<open>
  The patterns of this mapper, \<^verbatim>\<open>^dim_(?P<name>.*)$\<close> and \<^verbatim>\<open>^(?P<name>.*)$\<close>, are
  well-formed; \<open>well_formed_pattern\<close> is a \<^verbatim>\<open>re.compile\<close> that accepts them.
\<close>

definition well_formed_pattern :: "string \<Rightarrow> bool" where
  "well_formed_pattern p = (p \<in> {''^dim_(?P<name>.*)$'', ''^(?P<name>.*)$''})"

definition sales_mapper :: Mapper where
  "sales_mapper =
     projr (Mapper_init well_formed_pattern sales_cube
              [(''dimension_prefix'', NStr ''dim_'')] None)"

text \<open>
  A dimension with one level whose master is the date dimension of three levels, as a
  clone restricted to one hierarchy is; and the same mapper with a mapping whose value is
  \<^verbatim>\<open>None\<close>.
\<close>

definition date_dimension :: dimension where
  "date_dimension =
     projr (Dimension_init ''date'' (Some date_levels) None None None None None None None
              None None None None)"

definition year_dimension :: dimension where
  "year_dimension =
     projr (Dimension_init ''years'' (Some [plain_level ''year'' [''year'']]) None None None
              None None None None None (Some date_dimension) None None)"

definition null_mapper :: Mapper where
  "null_mapper = sales_mapper\<lparr> mappings := [(''customer.city'', JNull)] \<rparr>"











lemma split_not_Nil: "split sep s \<noteq> []"
  by (induction s) (auto split: list.splits)

lemma split_no_sep: "sep \<notin> set s \<Longrightarrow> split sep s = [s]"
  by (induction s) auto

lemma split_append_sep:
  "sep \<notin> set a \<Longrightarrow> split sep (a @ sep # b) = a # split sep b"
  by (induction a) auto

lemma collect_order_append:
  "collect_order (xs @ ys) = collect_order xs @ collect_order ys"
  by (induction xs) auto

lemma order_segment_plain: "CHR '':'' \<notin> set f \<Longrightarrow> order_segment f = (f, None)"
  by (simp add: order_segment_def split_no_sep)

lemma order_segment_direction:
  "CHR '':'' \<notin> set f \<Longrightarrow> CHR '':'' \<notin> set d \<Longrightarrow>
     order_segment (f @ CHR '':'' # d) = (f, Some d)"
  by (simp add: order_segment_def split_append_sep split_no_sep)

lemma order_segment_more:
  "CHR '':'' \<notin> set f \<Longrightarrow> CHR '':'' \<notin> set d \<Longrightarrow>
     order_segment (f @ CHR '':'' # d @ CHR '':'' # r) = (f, Some d)"
  by (simp add: order_segment_def split_append_sep)

lemma order_value_single:
  "CHR '','' \<notin> set a \<Longrightarrow> order_value a = [order_segment a]"
  by (simp add: order_value_def split_no_sep)

lemma order_value_comma:
  "CHR '','' \<notin> set a \<Longrightarrow> order_value (a @ CHR '','' # b) = order_segment a # order_value b"
  by (simp add: order_value_def split_append_sep)

lemma order_example:
  "collect_order [''a:desc,b'', ''c''] = [(''a'', Some ''desc''), (''b'', None), (''c'', None)]"
  by (simp add: order_value_def order_segment_def)

text \<open>
  C9.  The \<^verbatim>\<open>order\<close> parameter: \<^verbatim>\<open>order=a:desc,b&order=c\<close> gives
  \<^verbatim>\<open>[("a","desc"), ("b", None), ("c", None)]\<close>.  In general the list starts empty and the
  pairs of each value of the repeated parameter are appended in turn, so the result for
  one value is that value's pairs and the result for several is the concatenation in
  order; a value is cut at every comma, its segments keeping their order; a segment
  without a colon is the field with no direction; a segment with a colon gives the text
  before the first colon as field and the text after it, up to a second colon if there is
  one, as direction.
\<close>

theorem order_parameter_parsing:
  "collect_order [''a:desc,b'', ''c''] = [(''a'', Some ''desc''), (''b'', None), (''c'', None)]
   \<and> collect_order [] = []
   \<and> collect_order [v] = order_value v
   \<and> collect_order (v # vs) = order_value v @ collect_order vs
   \<and> collect_order (vs @ ws) = collect_order vs @ collect_order ws
   \<and> (CHR '','' \<notin> set a \<longrightarrow> order_value a = [order_segment a])
   \<and> (CHR '','' \<notin> set a \<longrightarrow> order_value (a @ CHR '','' # b) = order_segment a # order_value b)
   \<and> (CHR '':'' \<notin> set f \<longrightarrow> order_segment f = (f, None))
   \<and> (CHR '':'' \<notin> set f \<and> CHR '':'' \<notin> set d \<longrightarrow>
        order_segment (f @ CHR '':'' # d) = (f, Some d)
        \<and> order_segment (f @ CHR '':'' # d @ CHR '':'' # r) = (f, Some d))"
proof -
  note order_example
  moreover have "collect_order [] = []" by simp
  moreover have "collect_order [v] = order_value v" by simp
  moreover have "collect_order (v # vs) = order_value v @ collect_order vs" by simp
  moreover note collect_order_append [of vs ws]
  moreover have "CHR '','' \<notin> set a \<longrightarrow> order_value a = [order_segment a]"
    by (simp add: order_value_single)
  moreover have "CHR '','' \<notin> set a \<longrightarrow>
      order_value (a @ CHR '','' # b) = order_segment a # order_value b"
    by (simp add: order_value_comma)
  moreover have "CHR '':'' \<notin> set f \<longrightarrow> order_segment f = (f, None)"
    by (simp add: order_segment_plain)
  moreover have "CHR '':'' \<notin> set f \<and> CHR '':'' \<notin> set d \<longrightarrow>
        order_segment (f @ CHR '':'' # d) = (f, Some d)
        \<and> order_segment (f @ CHR '':'' # d @ CHR '':'' # r) = (f, Some d)"
    by (simp add: order_segment_direction order_segment_more)
  ultimately show ?thesis by blast
qed

theorem order_parameter_parsing_witness:
  "CHR '','' \<notin> set ''a:desc''
   \<and> collect_order [''a,b,c''] = order_value ''a,b,c''
   \<and> collect_order [''a,b,c''] = [(''a'', None), (''b'', None), (''c'', None)]
   \<and> collect_order (''a,b,c'' # [''d:asc'', ''e''])
        = [(''a'', None), (''b'', None), (''c'', None), (''d'', Some ''asc''), (''e'', None)]
   \<and> order_value ''a:desc'' = [order_segment ''a:desc'']
   \<and> order_value (''a:desc'' @ CHR '','' # ''b'') = order_segment ''a:desc'' # order_value ''b''
   \<and> CHR '':'' \<notin> set ''a'' \<and> CHR '':'' \<notin> set ''desc''
   \<and> order_segment ''a'' = (''a'', None)
   \<and> order_segment (''a'' @ CHR '':'' # ''desc'') = (''a'', Some ''desc'')
   \<and> order_segment (''a'' @ CHR '':'' # ''desc'' @ CHR '':'' # ''x'') = (''a'', Some ''desc'')"
  using order_parameter_parsing [where vs = "[''d:asc'', ''e'']" and ws = "[]"
      and v = "''a,b,c''" and a = "''a:desc''" and b = "''b''" and f = "''a''"
      and d = "''desc''" and r = "''x''"]
  by (simp add: order_value_def order_segment_def)

section \<open>Hierarchy.rollup\<close>

lemma index_of_None: "x \<notin> set xs \<Longrightarrow> index_of x xs = None"
  by (induction xs) auto

lemma index_of_Some: "x \<in> set xs \<Longrightarrow> \<exists>i. index_of x xs = Some i \<and> i < length xs"
  by (induction xs) auto

lemma rollup_absent: "rollup h path None = Inr (butlast path)"
  by (simp add: rollup_def butlast_conv_take)

lemma rollup_to_level:
  "level_index h (level_name l) = Inr i \<Longrightarrow> i < length path \<Longrightarrow>
     rollup h path (Some l) = Inr (take (i + 1) path)"
  by (simp add: rollup_def)

lemma rollup_too_deep:
  "level_index h (level_name l) = Inr i \<Longrightarrow> length path \<le> i \<Longrightarrow>
     rollup h path (Some l) = Inl (HierarchyError (LevelDeeperThanPath (level_name l) path))"
  by (simp add: rollup_def)

lemma rollup_unknown_level:
  "level_name l \<notin> set (level_names h) \<Longrightarrow>
     rollup h path (Some l)
       = Inl (HierarchyError (LevelNotInHierarchy (level_name l) (hier_name h)))"
  by (simp add: rollup_def level_index_def index_of_None)

lemma level_index_first: "level_names h = n # ns \<Longrightarrow> level_index h n = Inr 0"
  by (simp add: level_index_def)

lemma date_hierarchy_built:
  "Hierarchy_init ''ymd'' date_levels None None None = Inr date_hierarchy"
  by (simp add: Hierarchy_init_def object_dict_def date_levels_def date_hierarchy_def
      plain_level_def)

lemma date_hierarchy_names:
  "level_names (date_hierarchy :: 'd hierarchy) = [''year'', ''quarter'', ''month'']"
  by (simp add: level_names_def date_hierarchy_def date_levels_def plain_level_def)

lemma plain_level_name: "level_name (plain_level n attrs) = n"
  by (simp add: plain_level_def)

text \<open>
  C3, as the code has it.  Without a level, \<^verbatim>\<open>rollup\<close> returns the path without its
  last element (the empty list for a path of at most one element).  With a level at
  index \<open>i\<close> of the hierarchy it returns the first \<open>i + 1\<close> elements of the path, and
  fails with a hierarchy error when the path has fewer.  Rolling up to the first level
  therefore keeps the first element of a non-empty path: it does not return the empty
  list.
\<close>

theorem rollup_truncates:
  "rollup h path None = Inr (butlast path)
   \<and> (length path \<le> 1 \<longrightarrow> rollup h path None = Inr [])
   \<and> (level_index h (level_name l) = Inr i \<and> i < length path \<longrightarrow>
        rollup h path (Some l) = Inr (take (i + 1) path))
   \<and> (level_index h (level_name l) = Inr i \<and> length path \<le> i \<longrightarrow>
        rollup h path (Some l)
          = Inl (HierarchyError (LevelDeeperThanPath (level_name l) path)))
   \<and> (level_names h = level_name l # ns \<longrightarrow> rollup h (p # ps) (Some l) = Inr [p])"
proof -
  have short: "length path \<le> 1 \<longrightarrow> rollup h path None = Inr []"
    by (cases path) (simp_all add: rollup_absent)
  have first: "level_names h = level_name l # ns \<longrightarrow> rollup h (p # ps) (Some l) = Inr [p]"
  proof
    assume "level_names h = level_name l # ns"
    then have "level_index h (level_name l) = Inr 0" by (rule level_index_first)
    then show "rollup h (p # ps) (Some l) = Inr [p]"
      using rollup_to_level [of h l 0 "p # ps"] by simp
  qed
  from short first show ?thesis
    by (simp add: rollup_absent rollup_to_level rollup_too_deep)
qed

theorem rollup_truncates_witness:
  "length [''2020''] \<le> 1 \<and> rollup (date_hierarchy :: string hierarchy) [''2020''] None = Inr []
   \<and> level_index (date_hierarchy :: string hierarchy) (level_name (plain_level ''quarter'' [''quarter''] :: string level)) = Inr 1
   \<and> 1 < length [''2020'', ''Q1'', ''01'']
   \<and> rollup (date_hierarchy :: string hierarchy) [''2020'', ''Q1'', ''01'']
         (Some (plain_level ''quarter'' [''quarter''])) = Inr [''2020'', ''Q1'']
   \<and> length [''2020''] \<le> 1
   \<and> rollup (date_hierarchy :: string hierarchy) [''2020'']
         (Some (plain_level ''quarter'' [''quarter'']))
         = Inl (HierarchyError (LevelDeeperThanPath ''quarter'' [''2020'']))
   \<and> level_names (date_hierarchy :: string hierarchy)
         = level_name (plain_level ''year'' [''year''] :: string level) # [''quarter'', ''month'']
   \<and> rollup (date_hierarchy :: string hierarchy) [''2020'', ''Q1'', ''01'']
         (Some (plain_level ''year'' [''year''])) = Inr [''2020'']"
  using
    rollup_truncates [where h = "date_hierarchy :: string hierarchy"
      and path = "[''2020'', ''Q1'', ''01'']" and l = "plain_level ''quarter'' [''quarter'']"
      and i = 1]
    rollup_truncates [where h = "date_hierarchy :: string hierarchy"
      and path = "[''2020'']" and l = "plain_level ''quarter'' [''quarter'']" and i = 1]
    rollup_truncates [where h = "date_hierarchy :: string hierarchy"
      and l = "plain_level ''year'' [''year'']" and ns = "[''quarter'', ''month'']"
      and p = "''2020''" and ps = "[''Q1'', ''01'']" and path = "[]"]
  by (simp add: level_index_def date_hierarchy_names plain_level_name)

text \<open>
  The specification's instance \<^verbatim>\<open>rollup(path, <first level>) == []\<close> fails on the path
  2020, Q1, 01 of the hierarchy year, quarter, month.
\<close>

theorem rollup_first_level_counterexample:
  "rollup (date_hierarchy :: string hierarchy) [''2020'', ''Q1'', ''01'']
     (Some (plain_level ''year'' [''year''])) \<noteq> Inr []
   \<and> rollup (date_hierarchy :: string hierarchy) [''2020'', ''Q1'', ''01'']
     (Some (plain_level ''year'' [''year''])) = Inr [''2020'']"
  by (simp add: rollup_def level_index_def date_hierarchy_names plain_level_name)

section \<open>Level and Dimension construction\<close>

lemma nonadditive_chain_error:
  "nonadditive_chain na = Inl e \<longleftrightarrow>
     (truthy na \<and> na \<notin> {Some ''none'', Some ''all'', Some ''any'', Some ''time''}
      \<and> e = ModelError (''Unknown non-additive diension type '' @ [CHR 0x27] @ the na
            @ [CHR 0x27]))"
  by (auto simp: nonadditive_chain_def)

lemma Level_init_empty:
  "Level_init name [] key oa odr la lbl info cdn role na desc
     = Inl (ModelError ''Attribute list should not be empty'')"
  by (simp add: Level_init_def)

lemma Level_init_defaults:
  assumes "\<not> truthy key" "\<not> truthy la" "\<not> truthy oa"
    and "Level_init name (a # rest) key oa odr la lbl info cdn role na desc = Inr l"
  shows "level_key l = a" and "level_order_attribute l = a"
    and "level_label_attribute l = (case rest of [] \<Rightarrow> a | b # _ \<Rightarrow> b)"
    and "level_attributes l = a # rest" and "level_nonadditive l = na"
  using assms
  by (auto simp: Level_init_def split: sum.splits list.splits)

lemma Level_init_succeeds:
  assumes "\<not> truthy key" "\<not> truthy la" "\<not> truthy oa"
    and "\<not> truthy na \<or> na \<in> {Some ''none'', Some ''all'', Some ''any'', Some ''time''}"
  shows "\<exists>l. Level_init name (a # rest) key oa odr la lbl info cdn role na desc = Inr l"
proof -
  from assms(4) obtain v where "nonadditive_chain na = Inr v"
    using nonadditive_chain_error [of na] by (cases "nonadditive_chain na") auto
  with assms(1-3) show ?thesis
    by (simp add: Level_init_def)
qed

text \<open>
  C8.  A level built from a non-empty attribute list with no key, label attribute or order
  attribute given has the first attribute as key and as order attribute, and the second
  attribute as label attribute (the key when there is only one attribute); such a
  construction succeeds whenever the non-additive kind is one the chain accepts.  Building
  a level from the empty attribute list fails with a model error.
\<close>

theorem level_default_attributes:
  "Level_init name [] key oa odr la lbl info cdn role na desc
     = Inl (ModelError ''Attribute list should not be empty'')
   \<and> (\<not> truthy key \<and> \<not> truthy la \<and> \<not> truthy oa
        \<and> Level_init name (a # rest) key oa odr la lbl info cdn role na desc = Inr l
      \<longrightarrow> level_key l = a \<and> level_order_attribute l = a
          \<and> level_label_attribute l = (case rest of [] \<Rightarrow> a | b # _ \<Rightarrow> b))
   \<and> (\<not> truthy key \<and> \<not> truthy la \<and> \<not> truthy oa
        \<and> (\<not> truthy na \<or> na \<in> {Some ''none'', Some ''all'', Some ''any'', Some ''time''})
      \<longrightarrow> (\<exists>l'. Level_init name (a # rest) key oa odr la lbl info cdn role na desc = Inr l'))"
proof (intro conjI impI)
  show "Level_init name [] key oa odr la lbl info cdn role na desc
     = Inl (ModelError ''Attribute list should not be empty'')"
    by (rule Level_init_empty)
next
  assume h: "\<not> truthy key \<and> \<not> truthy la \<and> \<not> truthy oa
        \<and> Level_init name (a # rest) key oa odr la lbl info cdn role na desc = Inr l"
  then have k: "\<not> truthy key" and la: "\<not> truthy la" and oa: "\<not> truthy oa"
    and b: "Level_init name (a # rest) key oa odr la lbl info cdn role na desc = Inr l"
    by simp_all
  show "level_key l = a" by (rule Level_init_defaults(1) [OF k la oa b])
  show "level_order_attribute l = a" by (rule Level_init_defaults(2) [OF k la oa b])
  show "level_label_attribute l = (case rest of [] \<Rightarrow> a | b # _ \<Rightarrow> b)"
    by (rule Level_init_defaults(3) [OF k la oa b])
next
  assume h: "\<not> truthy key \<and> \<not> truthy la \<and> \<not> truthy oa
        \<and> (\<not> truthy na \<or> na \<in> {Some ''none'', Some ''all'', Some ''any'', Some ''time''})"
  then show "\<exists>l'. Level_init name (a # rest) key oa odr la lbl info cdn role na desc = Inr l'"
    using Level_init_succeeds [of key la oa na name a rest odr lbl info cdn role desc] by simp
qed

lemma plain_level_built:
  "attrs \<noteq> [] \<Longrightarrow>
   Level_init n (map plain_attribute attrs) None None None None None None None None None None
     = Inr (plain_level n attrs)"
  by (cases attrs; cases "tl attrs")
    (auto simp: Level_init_def nonadditive_chain_def truthy_def plain_level_def)

theorem level_default_attributes_witness:
  "\<not> truthy None
   \<and> Level_init ''month'' (map plain_attribute [''a'', ''b'', ''c'']) None None None None None
        None None None None None = Inr (plain_level ''month'' [''a'', ''b'', ''c''] :: string level)
   \<and> level_key (plain_level ''month'' [''a'', ''b'', ''c''] :: string level) = plain_attribute ''a''
   \<and> level_order_attribute (plain_level ''month'' [''a'', ''b'', ''c''] :: string level)
        = plain_attribute ''a''
   \<and> level_label_attribute (plain_level ''month'' [''a'', ''b'', ''c''] :: string level)
        = plain_attribute ''b''
   \<and> (\<exists>l'. Level_init ''month'' (map plain_attribute [''a'', ''b'', ''c'']) None None None
          None None None None None None None = Inr (l' :: string level))"
proof -
  have t: "\<not> truthy None" by (simp add: truthy_def)
  have b: "Level_init ''month'' (map plain_attribute [''a'', ''b'', ''c'']) None None None
      None None None None None None None
      = Inr (plain_level ''month'' [''a'', ''b'', ''c''] :: string level)"
    by (rule plain_level_built) simp
  from t b level_default_attributes [where key = None and la = None and oa = None
      and na = None and name = "''month''" and a = "plain_attribute ''a'' :: string attribute"
      and rest = "map plain_attribute [''b'', ''c'']" and odr = None and lbl = None
      and info = None and cdn = None and role = None and desc = None
      and l = "plain_level ''month'' [''a'', ''b'', ''c'']"]
  show ?thesis by (simp add: plain_level_def)
qed

lemma set_dict_set: "set (dict_set k v d) \<subseteq> insert (k, v) (set d)"
  by (induction d) auto

lemma dict_set_not_Nil: "dict_set k v d \<noteq> []"
  by (cases d) auto

lemma object_dict_from_keys:
  "object_dict_from nm err acc xs = Inr d \<Longrightarrow> \<forall>(k, v) \<in> set acc. k = nm v \<Longrightarrow>
     \<forall>(k, v) \<in> set d. k = nm v"
proof (induction xs arbitrary: acc)
  case Nil
  then show ?case by simp
next
  case (Cons x xs)
  from Cons.prems(1)
  have step: "object_dict_from nm err (dict_set (nm x) x acc) xs = Inr d"
    by (simp split: if_splits)
  have "\<forall>(k, v) \<in> set (dict_set (nm x) x acc). k = nm v"
    using Cons.prems(2) set_dict_set [of "nm x" x acc] by auto
  with step show ?case by (rule Cons.IH)
qed

lemma object_dict_from_not_Nil:
  "object_dict_from nm err acc xs = Inr d \<Longrightarrow> acc \<noteq> [] \<or> xs \<noteq> [] \<Longrightarrow> d \<noteq> []"
proof (induction xs arbitrary: acc)
  case Nil
  then show ?case by simp
next
  case (Cons x xs)
  from Cons.prems(1)
  have step: "object_dict_from nm err (dict_set (nm x) x acc) xs = Inr d"
    by (simp split: if_splits)
  have "dict_set (nm x) x acc \<noteq> [] \<or> xs \<noteq> []"
    by (simp add: dict_set_not_Nil)
  with step show ?case by (rule Cons.IH)
qed

lemma object_dict_keys:
  assumes "object_dict nm err xs = Inr d" and "(k, v) \<in> set d"
  shows "k = nm v"
proof -
  from assms(1) have "object_dict_from nm err [] xs = Inr d"
    by (simp add: object_dict_def)
  then have "\<forall>(k, v) \<in> set d. k = nm v"
    by (rule object_dict_from_keys) simp
  with assms(2) show ?thesis by blast
qed

lemma object_dict_not_Nil:
  assumes "object_dict nm err xs = Inr d" and "xs \<noteq> []"
  shows "d \<noteq> []"
proof -
  from assms(1) have "object_dict_from nm err [] xs = Inr d"
    by (simp add: object_dict_def)
  then show ?thesis
    by (rule object_dict_from_not_Nil) (simp add: assms(2))
qed

lemma given_hierarchies_keys:
  "given_hierarchies name hs ls = Inr d \<Longrightarrow> (k, v) \<in> set d \<Longrightarrow> k = hier_name v"
  by (auto simp: given_hierarchies_def split: if_splits sum.splits dest: object_dict_keys)

lemma select_default_hierarchy_found:
  "map_of hs (default_name dhn) = Some h \<Longrightarrow> select_default_hierarchy hs dhn = Inr h"
  by (cases hs) (simp_all add: select_default_hierarchy_def split: prod.splits del: map_of.simps)

lemma select_default_hierarchy_first:
  "map_of ((k, h) # rest) (default_name dhn) = None \<Longrightarrow>
     select_default_hierarchy ((k, h) # rest) dhn = Inr h"
  by (simp add: select_default_hierarchy_def del: map_of.simps)

lemma select_default_hierarchy_empty: "select_default_hierarchy [] dhn = Inl IndexError"
  by (simp add: select_default_hierarchy_def)

lemma select_default_hierarchy_resolves:
  assumes sel: "select_default_hierarchy hs dhn = Inr h"
    and keys: "\<And>k v. (k, v) \<in> set hs \<Longrightarrow> k = hier_name v"
  shows "map_of hs (hier_name h) = Some h"
proof (cases "map_of hs (default_name dhn)")
  case None
  from sel obtain k f rest where hs: "hs = (k, f) # rest"
    by (cases hs) (auto simp: select_default_hierarchy_empty)
  with None sel have "f = h" by (simp add: select_default_hierarchy_first)
  with hs have hs': "hs = (k, h) # rest" by simp
  then have "k = hier_name h" using keys by simp
  with hs' show ?thesis by simp
next
  case (Some h')
  with sel have "h' = h" by (simp add: select_default_hierarchy_found)
  with Some have m: "map_of hs (default_name dhn) = Some h" by simp
  then have "(default_name dhn, h) \<in> set hs" by (rule map_of_SomeD)
  then have "default_name dhn = hier_name h" by (rule keys)
  with m show ?thesis by simp
qed

lemma Dimension_init_parts:
  assumes "Dimension_init name lvls hs dhn lbl desc info role cdn cat master na attrs = Inr d"
  shows "\<exists>ls hs' h. given_hierarchies name hs ls = Inr hs'
           \<and> select_default_hierarchy hs' dhn = Inr h
           \<and> dim_hierarchies d = hs' \<and> dim_default_hierarchy d = h
           \<and> default_hierarchy_name d = hier_name h \<and> dim_nonadditive d = na"
  using assms
  by (auto simp: Dimension_init_def split: sum.splits)

lemma given_hierarchies_not_Nil: "given_hierarchies name hs ls = Inr d \<Longrightarrow> d \<noteq> []"
  by (auto simp: given_hierarchies_def split: if_splits sum.splits dest: object_dict_not_Nil)

lemma select_default_hierarchy_total:
  "hs \<noteq> [] \<Longrightarrow> \<exists>h. select_default_hierarchy hs dhn = Inr h"
  by (cases hs) (auto simp: select_default_hierarchy_def split: option.splits simp del: map_of.simps)

lemma Dimension_init_any_default:
  assumes "Dimension_init name lvls hs dhn lbl desc info role cdn cat master na attrs = Inr d"
  shows "\<exists>d'. Dimension_init name lvls hs dhn' lbl desc info role cdn cat master na attrs = Inr d'"
proof -
  from assms obtain v ls sl ol hs' where
    "nonadditive_chain na = Inr v" "given_levels name lvls attrs = Inr ls"
    "object_dict level_name None ls = Inr sl"
    "claim_levels name (map (\<lambda>(k, l). (k, set_default_role (default_roles role) l)) sl) = Inr ol"
    "given_hierarchies name hs (map snd ol) = Inr hs'"
    by (auto simp: Dimension_init_def split: sum.splits)
  moreover from this obtain h where "select_default_hierarchy hs' dhn' = Inr h"
    using given_hierarchies_not_Nil select_default_hierarchy_total by blast
  ultimately show ?thesis by (simp add: Dimension_init_def)
qed

lemma dict_set_new: "k \<notin> fst ` set d \<Longrightarrow> dict_set k v d = d @ [(k, v)]"
  by (induction d) auto

lemma object_dict_from_strict:
  "object_dict_from nm (Some err) acc xs = Inr d \<Longrightarrow> d = acc @ map (\<lambda>x. (nm x, x)) xs"
proof (induction xs arbitrary: acc)
  case Nil
  then show ?case by simp
next
  case (Cons x xs)
  from Cons.prems have new: "nm x \<notin> fst ` set acc"
    and step: "object_dict_from nm (Some err) (dict_set (nm x) x acc) xs = Inr d"
    by (simp_all split: if_splits)
  from Cons.IH [OF step] new show ?case by (simp add: dict_set_new)
qed

lemma object_dict_strict:
  "object_dict nm (Some err) xs = Inr d \<Longrightarrow> d = map (\<lambda>x. (nm x, x)) xs"
  using object_dict_from_strict [of nm err "[]" xs d] by (simp add: object_dict_def)

lemma given_hierarchies_passed:
  "hs \<noteq> None \<Longrightarrow> hs \<noteq> Some [] \<Longrightarrow> given_hierarchies name hs ls = Inr d \<Longrightarrow>
     d = map (\<lambda>h. (hier_name h, h)) (the hs)"
  by (simp add: given_hierarchies_def object_dict_strict)

lemma given_hierarchies_default:
  "hs = None \<or> hs = Some [] \<Longrightarrow> given_hierarchies name hs ls = Inr d \<Longrightarrow>
     map fst d = [''default'']"
  by (auto simp: given_hierarchies_def Hierarchy_init_def object_dict_def
      split: if_splits sum.splits)

lemma default_name_cases:
  "default_name dhn = (case dhn of None \<Rightarrow> ''default''
                       | Some s \<Rightarrow> if s = [] then ''default'' else s)"
  by (simp add: default_name_def truthy_def split: option.splits)

lemma Dimension_init_given:
  assumes "Dimension_init name lvls hs dhn lbl desc info role cdn cat master na attrs = Inr d"
  shows "\<exists>ls. given_hierarchies name hs ls = Inr (dim_hierarchies d)"
  using assms
  by (auto simp: Dimension_init_def split: sum.splits)

text \<open>
  C10.  After a successful \<^verbatim>\<open>Dimension.__init__\<close> the stored default hierarchy name is
  the key of a hierarchy of the dimension, and that hierarchy is the stored default
  hierarchy.  The dimension's hierarchies are the ones passed, each under its name and in
  the order given, or a single hierarchy \<^verbatim>\<open>default\<close> when none is passed.  The name
  looked up is the \<^verbatim>\<open>default_hierarchy_name\<close> argument, or \<^verbatim>\<open>"default"\<close> when the
  argument is missing or empty; the default hierarchy is the hierarchy under that name
  and, when there is none under it, the first hierarchy.  The construction never fails
  over the name: where it succeeds for one \<^verbatim>\<open>default_hierarchy_name\<close> it succeeds for
  every other.
\<close>

theorem default_hierarchy_resolves:
  assumes "Dimension_init name lvls hs dhn lbl desc info role cdn cat master na attrs = Inr d"
  shows "map_of (dim_hierarchies d) (default_hierarchy_name d) = Some (dim_default_hierarchy d)
    \<and> default_hierarchy_name d \<in> set (map fst (dim_hierarchies d))
    \<and> default_hierarchy_name d = hier_name (dim_default_hierarchy d)
    \<and> dim_default_hierarchy d =
         (case map_of (dim_hierarchies d)
                 (case dhn of None \<Rightarrow> ''default''
                  | Some s \<Rightarrow> if s = [] then ''default'' else s) of
            Some h \<Rightarrow> h
          | None \<Rightarrow> snd (hd (dim_hierarchies d)))
    \<and> (hs \<noteq> None \<and> hs \<noteq> Some [] \<longrightarrow>
         dim_hierarchies d = map (\<lambda>h. (hier_name h, h)) (the hs))
    \<and> (hs = None \<or> hs = Some [] \<longrightarrow> map fst (dim_hierarchies d) = [''default''])
    \<and> (\<exists>d'. Dimension_init name lvls hs dhn' lbl desc info role cdn cat master na attrs = Inr d')"
proof -
  from Dimension_init_parts [OF assms] obtain ls hs' h where
    gh: "given_hierarchies name hs ls = Inr hs'"
    and sel: "select_default_hierarchy hs' dhn = Inr h"
    and d: "dim_hierarchies d = hs'" "dim_default_hierarchy d = h"
      "default_hierarchy_name d = hier_name h"
    by blast
  have keys: "\<And>k v. (k, v) \<in> set hs' \<Longrightarrow> k = hier_name v"
    using gh by (rule given_hierarchies_keys)
  have m: "map_of hs' (hier_name h) = Some h"
    using sel keys by (rule select_default_hierarchy_resolves)
  then have "(hier_name h, h) \<in> set hs'" by (rule map_of_SomeD)
  then have mem: "hier_name h \<in> set (map fst hs')" by force
  have "h = (case map_of hs' (default_name dhn) of
            Some h \<Rightarrow> h | None \<Rightarrow> snd (hd hs'))"
    using sel
    by (cases hs') (auto simp: select_default_hierarchy_def split: option.splits
        simp del: map_of.simps)
  then have choice: "h = (case map_of hs'
                 (case dhn of None \<Rightarrow> ''default''
                  | Some s \<Rightarrow> if s = [] then ''default'' else s) of
            Some h \<Rightarrow> h | None \<Rightarrow> snd (hd hs'))"
    by (simp only: default_name_cases)
  show ?thesis unfolding d
  proof (intro conjI)
    show "map_of hs' (hier_name h) = Some h" by (rule m)
    show "hier_name h \<in> set (map fst hs')" by (rule mem)
    show "hier_name h = hier_name h" ..
    show "h = (case map_of hs'
                 (case dhn of None \<Rightarrow> ''default''
                  | Some s \<Rightarrow> if s = [] then ''default'' else s) of
            Some h \<Rightarrow> h | None \<Rightarrow> snd (hd hs'))" by (rule choice)
    show "hs \<noteq> None \<and> hs \<noteq> Some [] \<longrightarrow> hs' = map (\<lambda>h. (hier_name h, h)) (the hs)"
      using gh given_hierarchies_passed by blast
    show "hs = None \<or> hs = Some [] \<longrightarrow> map fst hs' = [''default'']"
      using gh given_hierarchies_default by blast
    show "\<exists>d'. Dimension_init name lvls hs dhn' lbl desc info role cdn cat master na attrs
            = Inr d'"
      by (rule Dimension_init_any_default [OF assms])
  qed
qed

lemmas date_dimension_eval =
  Dimension_init_def nonadditive_chain_def truthy_def given_levels_def
  object_dict_def date_levels_def plain_level_def default_roles_def
  set_default_role_def claim_attribute_def own_attribute_def plain_attribute_def
  given_hierarchies_def Hierarchy_init_def date_hierarchy_def year_hierarchy_def
  quarter_hierarchy_def duplicate_hierarchy_def select_default_hierarchy_def
  default_name_def

theorem default_hierarchy_resolves_witness:
  "(\<exists>d. Dimension_init ''date'' (Some date_levels) (Some [date_hierarchy, year_hierarchy])
          (Some ''nosuch'') None None None None None None None None None = Inr d
       \<and> map_of (dim_hierarchies d) (default_hierarchy_name d) = Some (dim_default_hierarchy d)
       \<and> map fst (dim_hierarchies d) = [''ymd'', ''default'']
       \<and> default_hierarchy_name d = ''ymd'')
   \<and> (\<exists>d. Dimension_init ''date'' (Some date_levels) (Some [date_hierarchy, year_hierarchy])
          None None None None None None None None None None = Inr d
       \<and> map_of (dim_hierarchies d) (default_hierarchy_name d) = Some (dim_default_hierarchy d)
       \<and> default_hierarchy_name d = ''default'')
   \<and> (\<exists>d. Dimension_init ''date'' (Some date_levels)
          (Some [date_hierarchy, year_hierarchy, quarter_hierarchy])
          (Some ''yq'') None None None None None None None None None = Inr d
       \<and> map_of (dim_hierarchies d) (default_hierarchy_name d) = Some (dim_default_hierarchy d)
       \<and> default_hierarchy_name d = ''yq'')
   \<and> (\<exists>d. Dimension_init ''date'' (Some date_levels) None
          (Some ''nosuch'') None None None None None None None None None = Inr d
       \<and> map_of (dim_hierarchies d) (default_hierarchy_name d) = Some (dim_default_hierarchy d)
       \<and> default_hierarchy_name d = ''default'')"
proof -
  have "\<exists>d. Dimension_init ''date'' (Some date_levels) (Some [date_hierarchy, year_hierarchy])
          (Some ''nosuch'') None None None None None None None None None = Inr d
        \<and> map fst (dim_hierarchies d) = [''ymd'', ''default'']
        \<and> default_hierarchy_name d = ''ymd''"
    by (simp add: date_dimension_eval)
  then obtain d1 where
    d1: "Dimension_init ''date'' (Some date_levels) (Some [date_hierarchy, year_hierarchy])
          (Some ''nosuch'') None None None None None None None None None = Inr d1"
    and n1: "map fst (dim_hierarchies d1) = [''ymd'', ''default'']"
      "default_hierarchy_name d1 = ''ymd''" by (elim exE conjE)
  have "\<exists>d. Dimension_init ''date'' (Some date_levels) (Some [date_hierarchy, year_hierarchy])
          None None None None None None None None None None = Inr d
        \<and> default_hierarchy_name d = ''default''"
    by (simp add: date_dimension_eval)
  then obtain d2 where
    d2: "Dimension_init ''date'' (Some date_levels) (Some [date_hierarchy, year_hierarchy])
          None None None None None None None None None None = Inr d2"
    and n2: "default_hierarchy_name d2 = ''default''" by (elim exE conjE)
  have "\<exists>d. Dimension_init ''date'' (Some date_levels)
          (Some [date_hierarchy, year_hierarchy, quarter_hierarchy])
          (Some ''yq'') None None None None None None None None None = Inr d
        \<and> default_hierarchy_name d = ''yq''"
    by (simp add: date_dimension_eval)
  then obtain d3 where
    d3: "Dimension_init ''date'' (Some date_levels)
          (Some [date_hierarchy, year_hierarchy, quarter_hierarchy])
          (Some ''yq'') None None None None None None None None None = Inr d3"
    and n3: "default_hierarchy_name d3 = ''yq''" by (elim exE conjE)
  have "\<exists>d. Dimension_init ''date'' (Some date_levels) None
          (Some ''nosuch'') None None None None None None None None None = Inr d
        \<and> default_hierarchy_name d = ''default''"
    by (simp add: date_dimension_eval)
  then obtain d4 where
    d4: "Dimension_init ''date'' (Some date_levels) None
          (Some ''nosuch'') None None None None None None None None None = Inr d4"
    and n4: "default_hierarchy_name d4 = ''default''" by (elim exE conjE)
  note r1 = default_hierarchy_resolves [OF d1, THEN conjunct1]
    and r2 = default_hierarchy_resolves [OF d2, THEN conjunct1]
    and r3 = default_hierarchy_resolves [OF d3, THEN conjunct1]
    and r4 = default_hierarchy_resolves [OF d4, THEN conjunct1]
  show ?thesis
  proof (intro conjI)
    show "\<exists>d. Dimension_init ''date'' (Some date_levels)
          (Some [date_hierarchy, year_hierarchy])
          (Some ''nosuch'') None None None None None None None None None = Inr d
       \<and> map_of (dim_hierarchies d) (default_hierarchy_name d) = Some (dim_default_hierarchy d)
       \<and> map fst (dim_hierarchies d) = [''ymd'', ''default'']
       \<and> default_hierarchy_name d = ''ymd''"
      by (rule exI [of _ d1]) (intro conjI d1 r1 n1)
    show "\<exists>d. Dimension_init ''date'' (Some date_levels)
          (Some [date_hierarchy, year_hierarchy])
          None None None None None None None None None None = Inr d
       \<and> map_of (dim_hierarchies d) (default_hierarchy_name d) = Some (dim_default_hierarchy d)
       \<and> default_hierarchy_name d = ''default''"
      by (rule exI [of _ d2]) (intro conjI d2 r2 n2)
    show "\<exists>d. Dimension_init ''date'' (Some date_levels)
          (Some [date_hierarchy, year_hierarchy, quarter_hierarchy])
          (Some ''yq'') None None None None None None None None None = Inr d
       \<and> map_of (dim_hierarchies d) (default_hierarchy_name d) = Some (dim_default_hierarchy d)
       \<and> default_hierarchy_name d = ''yq''"
      by (rule exI [of _ d3]) (intro conjI d3 r3 n3)
    show "\<exists>d. Dimension_init ''date'' (Some date_levels) None
          (Some ''nosuch'') None None None None None None None None None = Inr d
       \<and> map_of (dim_hierarchies d) (default_hierarchy_name d) = Some (dim_default_hierarchy d)
       \<and> default_hierarchy_name d = ''default''"
      by (rule exI [of _ d4]) (intro conjI d4 r4 n4)
  qed
qed

lemma Level_init_nonadditive:
  "Level_init name attrs key oa odr la lbl info cdn role na desc = Inr l \<Longrightarrow>
     level_nonadditive l = na"
  by (auto simp: Level_init_def split: sum.splits if_splits)

lemma Dimension_init_nonadditive:
  "Dimension_init name lvls hs dhn lbl desc info role cdn cat master na attrs = Inr d \<Longrightarrow>
     dim_nonadditive d = na"
  using Dimension_init_parts by blast

text \<open>
  C1.  Both constructors run the normalising chain and then store the argument itself:
  \<^verbatim>\<open>"any"\<close> is stored as \<^verbatim>\<open>"any"\<close> and \<^verbatim>\<open>"none"\<close> as \<^verbatim>\<open>"none"\<close>, in a level and in
  a dimension.
\<close>

theorem nonadditive_stored_as_given:
  "map_sum id level_nonadditive
     (Level_init ''year'' [plain_attribute ''year'' :: string attribute] None None None None
        None None None None (Some ''any'') None) = Inr (Some ''any'')
   \<and> map_sum id level_nonadditive
     (Level_init ''year'' [plain_attribute ''year'' :: string attribute] None None None None
        None None None None (Some ''none'') None) = Inr (Some ''none'')
   \<and> map_sum id dim_nonadditive
     (Dimension_init ''date'' (Some date_levels) None None None None None None None None None
        (Some ''any'') None) = Inr (Some ''any'')
   \<and> map_sum id dim_nonadditive
     (Dimension_init ''date'' (Some date_levels) None None None None None None None None None
        (Some ''none'') None) = Inr (Some ''none'')"
  by (simp add: Level_init_def Dimension_init_def nonadditive_chain_def truthy_def
        given_levels_def
        object_dict_def date_levels_def plain_level_def default_roles_def
        set_default_role_def claim_attribute_def own_attribute_def plain_attribute_def
        given_hierarchies_def Hierarchy_init_def select_default_hierarchy_def
        default_name_def)

section \<open>string_to_dimension_level\<close>

lemma takeWhile_all: "\<forall>c \<in> set s. P c \<Longrightarrow> \<not> P x \<Longrightarrow> takeWhile P (s @ x # r) = s"
  by (induction s) auto

lemma dropWhile_all: "\<forall>c \<in> set s. P c \<Longrightarrow> \<not> P x \<Longrightarrow> dropWhile P (s @ x # r) = x # r"
  by (induction s) auto

lemma ident_separators: "\<not> ident (CHR ''@'')" "\<not> ident (CHR '':'')"
  by (simp_all add: ident_def)

lemma string_to_dimension_level_empty:
  "string_to_dimension_level [] = Inl (ArgumentError ''Drilldown string should not be empty'')"
  by (simp add: string_to_dimension_level_def)

lemma string_to_dimension_level_no_ident:
  "\<not> ident c \<Longrightarrow> \<exists>m. string_to_dimension_level (c # s) = Inl (ArgumentError m)"
  by (simp add: string_to_dimension_level_def re_match_def)

lemma string_to_dimension_level_dim:
  assumes "d \<noteq> []" "\<forall>c \<in> set d. ident c"
  shows "string_to_dimension_level d = Inr (d, None, None)"
proof -
  have tw: "takeWhile ident d = d" "dropWhile ident d = []"
    using assms(2) by simp_all
  show ?thesis using assms(1)
    by (simp add: string_to_dimension_level_def re_match_def optional_group_def tw)
qed

lemma string_to_dimension_level_full:
  assumes "d \<noteq> []" "\<forall>c \<in> set d. ident c" "h \<noteq> []" "\<forall>c \<in> set h. ident c"
    "l \<noteq> []" "\<forall>c \<in> set l. ident c"
  shows "string_to_dimension_level (d @ CHR ''@'' # h @ CHR '':'' # l) = Inr (d, Some h, Some l)"
    and "string_to_dimension_level (d @ CHR ''@'' # h) = Inr (d, Some h, None)"
    and "string_to_dimension_level (d @ CHR '':'' # l) = Inr (d, None, Some l)"
proof -
  have d1: "takeWhile ident (d @ CHR ''@'' # r) = d" for r
    using assms(2) by (simp add: takeWhile_all ident_separators)
  have d2: "dropWhile ident (d @ CHR ''@'' # r) = CHR ''@'' # r" for r
    using assms(2) by (simp add: dropWhile_all ident_separators)
  have d3: "takeWhile ident (d @ CHR '':'' # r) = d" for r
    using assms(2) by (simp add: takeWhile_all ident_separators)
  have d4: "dropWhile ident (d @ CHR '':'' # r) = CHR '':'' # r" for r
    using assms(2) by (simp add: dropWhile_all ident_separators)
  have h1: "takeWhile ident (h @ CHR '':'' # r) = h" for r
    using assms(4) by (simp add: takeWhile_all ident_separators)
  have h2: "dropWhile ident (h @ CHR '':'' # r) = CHR '':'' # r" for r
    using assms(4) by (simp add: dropWhile_all ident_separators)
  have h3: "takeWhile ident h = h" "dropWhile ident h = []"
    using assms(4) by simp_all
  have l3: "takeWhile ident l = l" "dropWhile ident l = []"
    using assms(6) by simp_all
  show "string_to_dimension_level (d @ CHR ''@'' # h @ CHR '':'' # l) = Inr (d, Some h, Some l)"
    using assms(1,3,5)
    by (simp add: string_to_dimension_level_def re_match_def optional_group_def d1 d2 h1 h2 l3)
  show "string_to_dimension_level (d @ CHR ''@'' # h) = Inr (d, Some h, None)"
    using assms(1,3)
    by (simp add: string_to_dimension_level_def re_match_def optional_group_def d1 d2 h3)
  show "string_to_dimension_level (d @ CHR '':'' # l) = Inr (d, None, Some l)"
    using assms(1,5)
    by (simp add: string_to_dimension_level_def re_match_def optional_group_def d3 d4 l3)
qed

text \<open>
  C4.  \<^verbatim>\<open>re.match\<close> anchors the pattern at the start of the text only, so text that
  goes on after a well-formed prefix is accepted and what follows the prefix is dropped:
  no argument error is raised for \<^verbatim>\<open>sales!\<close>, \<^verbatim>\<open>sales@\<close>, \<^verbatim>\<open>sales fiscal\<close> or
  \<^verbatim>\<open>sales@fiscal:month:day\<close>.
\<close>

theorem drilldown_trailing_text_accepted:
  "string_to_dimension_level ''sales!'' = Inr (''sales'', None, None)
   \<and> string_to_dimension_level ''sales@fiscal:month:day'' = Inr (''sales'', Some ''fiscal'', Some ''month'')
   \<and> string_to_dimension_level ''sales@'' = Inr (''sales'', None, None)
   \<and> string_to_dimension_level ''sales fiscal'' = Inr (''sales'', None, None)"
  by (simp add: string_to_dimension_level_def re_match_def optional_group_def ident_def)

lemma drilldown_examples:
  "string_to_dimension_level ''sales@fiscal:month'' = Inr (''sales'', Some ''fiscal'', Some ''month'')"
  "string_to_dimension_level ''sales'' = Inr (''sales'', None, None)"
  by (simp_all add: string_to_dimension_level_def re_match_def optional_group_def ident_def)

section \<open>SQL expression compilation\<close>

lemma in_keys_iff: "k \<in> fst ` set d \<longleftrightarrow> map_of d k \<noteq> None"
  by (simp add: map_of_eq_None_iff)

lemma resolve_column:
  "map_of (columns ctx) v = Some c \<Longrightarrow> resolve ctx v = Inr c"
  by (simp add: resolve_def in_keys_iff)

lemma resolve_parameter:
  "map_of (columns ctx) v = None \<Longrightarrow> map_of (parameters ctx) v = Some p \<Longrightarrow>
     resolve ctx v = Inr p"
  by (simp add: resolve_def in_keys_iff)

lemma resolve_variable:
  "map_of (columns ctx) v = None \<Longrightarrow> map_of (parameters ctx) v = None \<Longrightarrow>
   v \<in> set SQL_VARIABLES \<Longrightarrow> resolve ctx v = Inr (FunctionCall v [])"
  by (simp add: resolve_def in_keys_iff)

lemma resolve_unknown:
  "map_of (columns ctx) v = None \<Longrightarrow> map_of (parameters ctx) v = None \<Longrightarrow>
   v \<notin> set SQL_VARIABLES \<Longrightarrow>
     resolve ctx v = Inl (ExpressionError
       (''Unknown attribute, variable or parameter '' @ [CHR 0x27] @ v @ [CHR 0x27]
          @ (if truthy (label ctx) then '' in '' @ the (label ctx) else [])))"
  by (simp add: resolve_def in_keys_iff)

lemma function_unknown:
  "f \<notin> set SQL_FUNCTIONS \<union> set SQL_AGGREGATE_FUNCTIONS \<Longrightarrow>
     function' ctx f = Inl (ExpressionError (''Unknown function '' @ [CHR 0x27] @ f @ [CHR 0x27]))"
  by (simp add: function'_def SQL_ALL_FUNCTIONS_def)

lemma compile_unknown_function:
  assumes "f \<notin> set SQL_FUNCTIONS \<union> set SQL_AGGREGATE_FUNCTIONS"
  shows "\<exists>e. compile ctx (Function f args) = Inl e"
    and "compile_list ctx args = Inr cargs \<Longrightarrow>
      compile ctx (Function f args)
        = Inl (ExpressionError (''Unknown function '' @ [CHR 0x27] @ f @ [CHR 0x27]))"
  using function_unknown [OF assms, of ctx]
  by (auto simp: compile_function_def split: sum.splits)

text \<open>
  C6.  A variable name resolves to the context's column of that name when there is one;
  else to the parameter of that name; else, when it is one of \<^verbatim>\<open>current_date\<close>,
  \<^verbatim>\<open>current_time\<close>, \<^verbatim>\<open>local_date\<close>, \<^verbatim>\<open>local_time\<close>, to the call of that SQL
  function without arguments; any other name is an expression error with the message
  \<^verbatim>\<open>Unknown attribute, variable or parameter '<name>'\<close>, followed by \<^verbatim>\<open> in <label>\<close>
  when the context has a label.  A variable node of an expression compiles to what its
  name resolves to.  A function name outside the scalar and aggregate lists is an
  expression error, and a call of such a function never compiles.
\<close>

theorem name_resolution_order:
  "(map_of (columns ctx) v = Some c \<longrightarrow> resolve ctx v = Inr c)
   \<and> (map_of (columns ctx) v = None \<and> map_of (parameters ctx) v = Some p \<longrightarrow>
        resolve ctx v = Inr p)
   \<and> (map_of (columns ctx) v = None \<and> map_of (parameters ctx) v = None
        \<and> v \<in> {''current_date'', ''current_time'', ''local_date'', ''local_time''} \<longrightarrow>
        resolve ctx v = Inr (FunctionCall v []))
   \<and> (map_of (columns ctx) v = None \<and> map_of (parameters ctx) v = None
        \<and> v \<notin> {''current_date'', ''current_time'', ''local_date'', ''local_time''} \<longrightarrow>
        resolve ctx v = Inl (ExpressionError
          (''Unknown attribute, variable or parameter '' @ [CHR 0x27] @ v @ [CHR 0x27]
             @ (if truthy (label ctx) then '' in '' @ the (label ctx) else []))))
   \<and> compile ctx (Variable v) = resolve ctx v
   \<and> (f \<notin> set SQL_FUNCTIONS \<union> set SQL_AGGREGATE_FUNCTIONS \<longrightarrow>
        function' ctx f
          = Inl (ExpressionError (''Unknown function '' @ [CHR 0x27] @ f @ [CHR 0x27]))
        \<and> (\<exists>e. compile ctx (Function f args) = Inl e)
        \<and> (compile_list ctx args = Inr cargs \<longrightarrow>
             compile ctx (Function f args)
               = Inl (ExpressionError (''Unknown function '' @ [CHR 0x27] @ f @ [CHR 0x27]))))"
proof -
  have vars: "set SQL_VARIABLES = {''current_date'', ''current_time'', ''local_date'', ''local_time''}"
    by (simp add: SQL_VARIABLES_def)
  show ?thesis
    using resolve_column [of ctx v c] resolve_parameter [of ctx v p]
      resolve_variable [of ctx v] resolve_unknown [of ctx v]
      function_unknown [of f ctx] compile_unknown_function(1) [of f ctx args]
      compile_unknown_function(2) [of f ctx args cargs]
    unfolding vars
    by (simp add: compile_variable_def)
qed

theorem name_resolution_order_witness:
  "map_of (columns sales_context) ''amount'' = Some (Column ''amount'')
   \<and> map_of (parameters sales_context) ''amount'' = Some (ParamValue (IntLit 0))
   \<and> resolve sales_context ''amount'' = Inr (Column ''amount'')
   \<and> map_of (columns sales_context) ''rate'' = None
   \<and> map_of (parameters sales_context) ''rate'' = Some (ParamValue (IntLit 2))
   \<and> resolve sales_context ''rate'' = Inr (ParamValue (IntLit 2))
   \<and> map_of (columns sales_context) ''local_time'' = None
   \<and> map_of (parameters sales_context) ''local_time'' = None
   \<and> resolve sales_context ''local_time'' = Inr (FunctionCall ''local_time'' [])
   \<and> map_of (columns sales_context) ''z'' = None
   \<and> map_of (parameters sales_context) ''z'' = None
   \<and> resolve sales_context ''z''
        = Inl (ExpressionError (''Unknown attribute, variable or parameter ''
                @ [CHR 0x27] @ ''z'' @ [CHR 0x27] @ '' in sales''))
   \<and> ''evil'' \<notin> set SQL_FUNCTIONS \<union> set SQL_AGGREGATE_FUNCTIONS
   \<and> compile_list sales_context [Variable ''amount''] = Inr [Column ''amount'']
   \<and> compile sales_context (Function ''evil'' [Variable ''amount''])
        = Inl (ExpressionError (''Unknown function '' @ [CHR 0x27] @ ''evil'' @ [CHR 0x27]))"
  using
    name_resolution_order [where ctx = sales_context and v = "''amount''"
      and c = "Column ''amount''"]
    name_resolution_order [where ctx = sales_context and v = "''rate''"
      and p = "ParamValue (IntLit 2)"]
    name_resolution_order [where ctx = sales_context and v = "''local_time''"]
    name_resolution_order [where ctx = sales_context and v = "''z''" and f = "''evil''"
      and args = "[Variable ''amount'']" and cargs = "[Column ''amount'']"]
  by (simp add: sales_context_def SQL_FUNCTIONS_def SQL_AGGREGATE_FUNCTIONS_def truthy_def
      compile_variable_def resolve_def)

section \<open>Extension lookup\<close>

lemma get_unknown:
  "map_of (extensions self) name = None \<Longrightarrow> map_of (builtins self) name = None \<Longrightarrow>
     get' load debugger_continues self name
       = (if debugger_continues then Inl (Exception ''nono'') else Inl BdbQuit)"
  by (simp add: get'_def builtin_def)

lemma get_unknown_not_internal:
  "map_of (extensions self) name = None \<Longrightarrow> map_of (builtins self) name = None \<Longrightarrow>
     get' load debugger_continues self name \<noteq> Inl (unknown_extension (finder_type self) name)"
  by (simp add: get_unknown unknown_extension_def)

text \<open>
  C2.  For a name that is neither cached nor builtin, \<^verbatim>\<open>_get\<close> stops in the debugger
  and raises \<^verbatim>\<open>Exception("nono")\<close> (or \<^verbatim>\<open>BdbQuit\<close> when the debugger is quit); the
  internal error \<^verbatim>\<open>Unknown 'stores' extension 'nosuch'\<close> is not raised.
\<close>

theorem unknown_extension_raises_nono:
  "map_of (extensions (ExtensionFinder_init ''stores'')) ''nosuch'' = None
   \<and> map_of (builtins (ExtensionFinder_init ''stores'')) ''nosuch'' = None
   \<and> get' load True (ExtensionFinder_init ''stores'') ''nosuch'' = Inl (Exception ''nono'')
   \<and> get' load False (ExtensionFinder_init ''stores'') ''nosuch'' = Inl BdbQuit
   \<and> get' load True (ExtensionFinder_init ''stores'') ''nosuch''
        \<noteq> Inl (InternalError (''Unknown '' @ [CHR 0x27] @ ''stores'' @ [CHR 0x27]
              @ '' extension '' @ [CHR 0x27] @ ''nosuch'' @ [CHR 0x27]))"
  by (simp add: get'_def builtin_def ExtensionFinder_init_def BUILTIN_EXTENSIONS_def)

section \<open>StarSchemaMapper\<close>

lemma star_expression_rejected:
  "attr_expression a \<noteq> None \<Longrightarrow>
     StarSchemaMapper_getitem il lr fd m a
       = Inl (ModelError (has_expression_message (attr_name a)))"
  by (simp add: StarSchemaMapper_getitem_def)

lemma star_explicit_plain:
  "attr_expression a = None \<Longrightarrow> \<not> il a \<Longrightarrow>
   map_of (mappings m) (lr a None) = Some p \<Longrightarrow> p \<noteq> JNull \<Longrightarrow>
     StarSchemaMapper_getitem il lr fd m a = fd p"
  by (simp add: StarSchemaMapper_getitem_def)

lemma star_explicit_localized:
  "attr_expression a = None \<Longrightarrow> il a \<Longrightarrow> pick_locale m a = Inr l \<Longrightarrow>
   map_of (mappings m) (lr a (Some l)) = Some p \<Longrightarrow> p \<noteq> JNull \<Longrightarrow>
     StarSchemaMapper_getitem il lr fd m a = fd p"
  by (simp add: StarSchemaMapper_getitem_def)

lemma star_fallback_plain:
  "attr_expression a = None \<Longrightarrow> \<not> il a \<Longrightarrow>
   map_of (mappings m) (lr a None) = None \<or> map_of (mappings m) (lr a None) = Some JNull \<Longrightarrow>
     StarSchemaMapper_getitem il lr fd m a = Mapper_getitem il m a"
  by (auto simp: StarSchemaMapper_getitem_def)

lemma star_fallback_localized:
  "attr_expression a = None \<Longrightarrow> il a \<Longrightarrow> pick_locale m a = Inr l \<Longrightarrow>
   map_of (mappings m) (lr a (Some l)) = None
     \<or> map_of (mappings m) (lr a (Some l)) = Some JNull \<Longrightarrow>
     StarSchemaMapper_getitem il lr fd m a = Mapper_getitem il m a"
  by (auto simp: StarSchemaMapper_getitem_def)

lemma implicit_plain:
  "\<not> il a \<Longrightarrow>
     Mapper_getitem il m a =
       Inr \<lparr> cr_schema = (case attr_dimension a of
                             None \<Rightarrow> schema m
                           | Some d \<Rightarrow> py_or (dimension_schema m) (schema m)),
             cr_table = (case attr_dimension a of
                           None \<Rightarrow> fact_name m
                         | Some d \<Rightarrow>
                             if is_flat d \<and> \<not> has_details d then fact_name m
                             else dimension_table_name m (dim_name d)),
             cr_column = attr_name a \<rparr>"
  by (simp add: Mapper_getitem_def attribute_table_def split: option.splits)

lemma implicit_localized:
  "il a \<Longrightarrow> pick_locale m a = Inr l \<Longrightarrow>
     Mapper_getitem il m a =
       Inr \<lparr> cr_schema = (case attr_dimension a of
                             None \<Rightarrow> schema m
                           | Some d \<Rightarrow> py_or (dimension_schema m) (schema m)),
             cr_table = (case attr_dimension a of
                           None \<Rightarrow> fact_name m
                         | Some d \<Rightarrow>
                             if is_flat d \<and> \<not> has_details d then fact_name m
                             else dimension_table_name m (dim_name d)),
             cr_column = attr_name a @ ''_'' @ l \<rparr>"
  by (simp add: Mapper_getitem_def attribute_table_def split: option.splits)

lemma pick_locale_own:
  "mapper_locale m = Some l \<Longrightarrow> l \<in> set (attr_locales a) \<Longrightarrow> pick_locale m a = Inr l"
  by (simp add: pick_locale_def)

lemma pick_locale_first:
  "mapper_locale m = None \<or> (\<exists>l. mapper_locale m = Some l \<and> l \<notin> set (attr_locales a))
     \<Longrightarrow> attr_locales a = l0 # ls \<Longrightarrow> pick_locale m a = Inr l0"
  by (auto simp: pick_locale_def)

lemma is_flat_master:
  "is_flat dim = (case dim_master dim of
                    Some ms \<Rightarrow> is_flat ms
                  | None \<Rightarrow> length (dim_levels dim) = 1)"
  by (cases dim) (simp split: option.splits)

lemma has_details_master:
  "has_details dim = (case dim_master dim of
                        Some ms \<Rightarrow> has_details ms
                      | None \<Rightarrow> (\<exists>(k, l) \<in> set (dim_levels dim).
                                   length (level_attributes l) > 1))"
  by (cases dim)
    (auto simp: list_ex_iff level_has_details_def case_prod_beta split: option.splits)

text \<open>
  C7, as the code has it.  The lookup of a \<^verbatim>\<open>StarSchemaMapper\<close> first fails with a model
  error when the attribute has an expression.  Otherwise it takes the attribute's logical
  reference, qualified by the picked locale when the attribute is localizable, and when
  the cube's mapping table holds a value other than \<^verbatim>\<open>None\<close> under it, it returns that
  physical reference (through \<^verbatim>\<open>ColumnReference.from_dict\<close>).  Else it returns the
  implicit reference of the base mapper: the column is the attribute's name, with the
  suffix \<^verbatim>\<open>_<locale>\<close> for a localizable attribute; the table is the fact table when the
  attribute has no owning dimension or when that dimension answers \<^verbatim>\<open>is_flat\<close> and not
  \<^verbatim>\<open>has_details\<close>, and the dimension's table (prefix, the dimension's name, suffix)
  otherwise.  The picked locale is the mapper's when it is one of the attribute's, else
  the attribute's first.  A dimension without a master is flat when it has one level and
  has details when a level has more than one attribute; a dimension with a master answers
  both with its master's values.
\<close>

theorem star_schema_lookup:
  "(attr_expression a \<noteq> None \<longrightarrow>
      StarSchemaMapper_getitem il lr fd m a
        = Inl (ModelError (''Attribute '' @ [CHR 0x27] @ attr_name a @ [CHR 0x27]
            @ '' has an expression, it can not have a direct physical representation'')))
   \<and> (attr_expression a = None \<and> \<not> il a
        \<and> map_of (mappings m) (lr a None) = Some p \<and> p \<noteq> JNull \<longrightarrow>
      StarSchemaMapper_getitem il lr fd m a = fd p)
   \<and> (attr_expression a = None \<and> il a \<and> pick_locale m a = Inr l
        \<and> map_of (mappings m) (lr a (Some l)) = Some p \<and> p \<noteq> JNull \<longrightarrow>
      StarSchemaMapper_getitem il lr fd m a = fd p)
   \<and> (attr_expression a = None \<and> \<not> il a
        \<and> (map_of (mappings m) (lr a None) = None
             \<or> map_of (mappings m) (lr a None) = Some JNull) \<longrightarrow>
      StarSchemaMapper_getitem il lr fd m a = Mapper_getitem il m a
      \<and> Mapper_getitem il m a =
          Inr \<lparr> cr_schema = (case attr_dimension a of
                                None \<Rightarrow> schema m
                              | Some d \<Rightarrow> py_or (dimension_schema m) (schema m)),
                cr_table = (case attr_dimension a of
                              None \<Rightarrow> fact_name m
                            | Some d \<Rightarrow>
                                if is_flat d \<and> \<not> has_details d then fact_name m
                                else dimension_table_name m (dim_name d)),
                cr_column = attr_name a \<rparr>)
   \<and> (attr_expression a = None \<and> il a \<and> pick_locale m a = Inr l
        \<and> (map_of (mappings m) (lr a (Some l)) = None
             \<or> map_of (mappings m) (lr a (Some l)) = Some JNull) \<longrightarrow>
      StarSchemaMapper_getitem il lr fd m a = Mapper_getitem il m a
      \<and> Mapper_getitem il m a =
          Inr \<lparr> cr_schema = (case attr_dimension a of
                                None \<Rightarrow> schema m
                              | Some d \<Rightarrow> py_or (dimension_schema m) (schema m)),
                cr_table = (case attr_dimension a of
                              None \<Rightarrow> fact_name m
                            | Some d \<Rightarrow>
                                if is_flat d \<and> \<not> has_details d then fact_name m
                                else dimension_table_name m (dim_name d)),
                cr_column = attr_name a @ ''_'' @ l \<rparr>)
   \<and> (mapper_locale m = Some l \<and> l \<in> set (attr_locales a) \<longrightarrow> pick_locale m a = Inr l)
   \<and> ((mapper_locale m = None
         \<or> (\<exists>l'. mapper_locale m = Some l' \<and> l' \<notin> set (attr_locales a)))
        \<and> attr_locales a = l0 # ls \<longrightarrow> pick_locale m a = Inr l0)
   \<and> is_flat dim = (case dim_master dim of
                      Some ms \<Rightarrow> is_flat ms
                    | None \<Rightarrow> length (dim_levels dim) = 1)
   \<and> has_details dim = (case dim_master dim of
                          Some ms \<Rightarrow> has_details ms
                        | None \<Rightarrow> (\<exists>(k, lv) \<in> set (dim_levels dim).
                                     length (level_attributes lv) > 1))
   \<and> dimension_table_name m n
       = or_empty (dimension_prefix m) @ n @ or_empty (dimension_suffix m)
   \<and> py_or (NStr (c # cs)) v = NStr (c # cs) \<and> py_or NNone v = v \<and> py_or (NStr []) v = v
   \<and> or_empty (NStr s) = s \<and> or_empty NNone = []"
proof (intro conjI impI)
  assume "attr_expression a \<noteq> None"
  then show "StarSchemaMapper_getitem il lr fd m a
        = Inl (ModelError (''Attribute '' @ [CHR 0x27] @ attr_name a @ [CHR 0x27]
            @ '' has an expression, it can not have a direct physical representation''))"
    by (simp add: star_expression_rejected has_expression_message_def)
next
  assume "attr_expression a = None \<and> \<not> il a
        \<and> map_of (mappings m) (lr a None) = Some p \<and> p \<noteq> JNull"
  then show "StarSchemaMapper_getitem il lr fd m a = fd p"
    by (simp add: star_explicit_plain)
next
  assume "attr_expression a = None \<and> il a \<and> pick_locale m a = Inr l
        \<and> map_of (mappings m) (lr a (Some l)) = Some p \<and> p \<noteq> JNull"
  then show "StarSchemaMapper_getitem il lr fd m a = fd p"
    by (simp add: star_explicit_localized)
next
  assume h: "attr_expression a = None \<and> \<not> il a
        \<and> (map_of (mappings m) (lr a None) = None
             \<or> map_of (mappings m) (lr a None) = Some JNull)"
  then show "StarSchemaMapper_getitem il lr fd m a = Mapper_getitem il m a"
    using star_fallback_plain [of a il m lr fd] by blast
  from h show "Mapper_getitem il m a =
          Inr \<lparr> cr_schema = (case attr_dimension a of
                                None \<Rightarrow> schema m
                              | Some d \<Rightarrow> py_or (dimension_schema m) (schema m)),
                cr_table = (case attr_dimension a of
                              None \<Rightarrow> fact_name m
                            | Some d \<Rightarrow>
                                if is_flat d \<and> \<not> has_details d then fact_name m
                                else dimension_table_name m (dim_name d)),
                cr_column = attr_name a \<rparr>"
    using implicit_plain [of il a m] by blast
next
  assume h: "attr_expression a = None \<and> il a \<and> pick_locale m a = Inr l
        \<and> (map_of (mappings m) (lr a (Some l)) = None
             \<or> map_of (mappings m) (lr a (Some l)) = Some JNull)"
  then show "StarSchemaMapper_getitem il lr fd m a = Mapper_getitem il m a"
    using star_fallback_localized [of a il m l lr fd] by blast
  from h show "Mapper_getitem il m a =
          Inr \<lparr> cr_schema = (case attr_dimension a of
                                None \<Rightarrow> schema m
                              | Some d \<Rightarrow> py_or (dimension_schema m) (schema m)),
                cr_table = (case attr_dimension a of
                              None \<Rightarrow> fact_name m
                            | Some d \<Rightarrow>
                                if is_flat d \<and> \<not> has_details d then fact_name m
                                else dimension_table_name m (dim_name d)),
                cr_column = attr_name a @ ''_'' @ l \<rparr>"
    using implicit_localized [of il a m l] by blast
next
  assume "mapper_locale m = Some l \<and> l \<in> set (attr_locales a)"
  then show "pick_locale m a = Inr l" by (simp add: pick_locale_own)
next
  assume "(mapper_locale m = None
         \<or> (\<exists>l'. mapper_locale m = Some l' \<and> l' \<notin> set (attr_locales a)))
        \<and> attr_locales a = l0 # ls"
  then show "pick_locale m a = Inr l0" using pick_locale_first [of m a l0 ls] by blast
next
  show "is_flat dim = (case dim_master dim of
                      Some ms \<Rightarrow> is_flat ms
                    | None \<Rightarrow> length (dim_levels dim) = 1)"
    by (rule is_flat_master)
  show "has_details dim = (case dim_master dim of
                          Some ms \<Rightarrow> has_details ms
                        | None \<Rightarrow> (\<exists>(k, lv) \<in> set (dim_levels dim).
                                     length (level_attributes lv) > 1))"
    by (rule has_details_master)
  show "dimension_table_name m n
       = or_empty (dimension_prefix m) @ n @ or_empty (dimension_suffix m)"
    by (simp add: dimension_table_name_def table_name_def)
  show "py_or (NStr (c # cs)) v = NStr (c # cs)" by (simp add: py_or_def naming_truthy_def)
  show "py_or NNone v = v" by (simp add: py_or_def naming_truthy_def)
  show "py_or (NStr []) v = v" by (simp add: py_or_def naming_truthy_def)
  show "or_empty (NStr s) = s" by (simp add: or_empty_def)
  show "or_empty NNone = []" by (simp add: or_empty_def)
qed

lemmas dimension_eval =
  flat_dimension_def Dimension_init_def nonadditive_chain_def truthy_def given_levels_def
  Level_init_def attribute_def
  object_dict_def default_roles_def set_default_role_def claim_attribute_def
  own_attribute_def plain_attribute_def given_hierarchies_def Hierarchy_init_def
  select_default_hierarchy_def default_name_def level_has_details_def

lemma customer_dimension:
  "dim_name (flat_dimension ''customer'' [''id'', ''name'']) = ''customer''"
  "is_flat (flat_dimension ''customer'' [''id'', ''name''])"
  "has_details (flat_dimension ''customer'' [''id'', ''name''])"
  by (simp_all add: dimension_eval)

lemma flag_dimension:
  "dim_name (flat_dimension ''flag'' [''flag'']) = ''flag''"
  "is_flat (flat_dimension ''flag'' [''flag''])"
  "\<not> has_details (flat_dimension ''flag'' [''flag''])"
  by (simp_all add: dimension_eval)

lemma date_dimension_levels:
  "dim_master date_dimension = None" "length (dim_levels date_dimension) = 3"
  "\<not> is_flat date_dimension"
  by (simp_all add: date_dimension_def dimension_eval date_levels_def plain_level_def)

lemma year_dimension_master:
  "dim_name year_dimension = ''years''" "dim_master year_dimension = Some date_dimension"
  "length (dim_levels year_dimension) = 1" "\<not> is_flat year_dimension"
proof -
  show n: "dim_name year_dimension = ''years''"
    and m: "dim_master year_dimension = Some date_dimension"
    and "length (dim_levels year_dimension) = 1"
    by (simp_all add: year_dimension_def dimension_eval plain_level_def)
  show "\<not> is_flat year_dimension"
    using is_flat_master [of year_dimension] m date_dimension_levels(3) by simp
qed

lemma sales_mapper_fields:
  "mappings sales_mapper
     = [(''customer.name'',
         JDict [(''table'', JStr ''dim_customer''), (''column'', JStr ''name'')])]"
  "fact_name sales_mapper = ''sales''"
  "schema sales_mapper = NNone" "dimension_schema sales_mapper = NNone"
  "mapper_locale sales_mapper = None"
  "dimension_table_name sales_mapper n = ''dim_'' @ n"
  by (simp_all add: sales_mapper_def Mapper_init_def sales_cube_def naming_default_def
      NAMING_DEFAULTS_def truthy_def table_name_def or_empty_def dimension_table_name_def
      name_pattern_def well_formed_pattern_def Let_def)

lemma sales_mapper_prefix:
  "dimension_prefix sales_mapper = NStr ''dim_''" "dimension_suffix sales_mapper = NNone"
  by (simp_all add: sales_mapper_def Mapper_init_def naming_default_def NAMING_DEFAULTS_def
      name_pattern_def well_formed_pattern_def or_empty_def sales_cube_def truthy_def Let_def)

text \<open>
  The specification's wording puts every attribute that has an owning dimension into
  that dimension's table, names the column after the attribute, and returns the explicit
  reference whenever the logical reference is present in the mapping table.  An attribute
  of a flat dimension without details, with no explicit mapping, is looked up in the fact
  table \<^verbatim>\<open>sales\<close>, not in \<^verbatim>\<open>dim_flag\<close>.  A localizable attribute \<^verbatim>\<open>label\<close> looked up
  for the locale \<^verbatim>\<open>sk\<close> has the column \<^verbatim>\<open>label_sk\<close>.  An attribute whose logical
  reference is present in the mapping table with the value \<^verbatim>\<open>None\<close> gets the implicit
  reference, which is not what \<^verbatim>\<open>from_dict\<close> makes of that value.
\<close>

theorem star_schema_fallback_counterexample:
  "attr_dimension (owned_attribute ''flag'' (flat_dimension ''flag'' [''flag'']))
     = Some (flat_dimension ''flag'' [''flag''])
   \<and> dimension_table_name sales_mapper ''flag'' = ''dim_flag''
   \<and> StarSchemaMapper_getitem has_locales ref_with_locale reference_from_dict sales_mapper
        (owned_attribute ''flag'' (flat_dimension ''flag'' [''flag'']))
       = Inr \<lparr> cr_schema = NNone, cr_table = ''sales'', cr_column = ''flag'' \<rparr>
   \<and> attr_name ((owned_attribute ''label'' (flat_dimension ''customer'' [''id'', ''name'']))
        \<lparr> attr_locales := [''en'', ''sk''] \<rparr>) = ''label''
   \<and> StarSchemaMapper_getitem has_locales ref_with_locale reference_from_dict
        (sales_mapper\<lparr> mapper_locale := Some ''sk'' \<rparr>)
        ((owned_attribute ''label'' (flat_dimension ''customer'' [''id'', ''name'']))
           \<lparr> attr_locales := [''en'', ''sk''] \<rparr>)
       = Inr \<lparr> cr_schema = NNone, cr_table = ''dim_customer'', cr_column = ''label_sk'' \<rparr>
   \<and> map_of (mappings null_mapper)
        (ref_with_locale
           (owned_attribute ''city'' (flat_dimension ''customer'' [''id'', ''name''])) None)
       = Some JNull
   \<and> StarSchemaMapper_getitem has_locales ref_with_locale reference_from_dict null_mapper
        (owned_attribute ''city'' (flat_dimension ''customer'' [''id'', ''name'']))
       = Inr \<lparr> cr_schema = NNone, cr_table = ''dim_customer'', cr_column = ''city'' \<rparr>
   \<and> reference_from_dict JNull = Inl (TypeError ''from_dict'')"
  by (simp add: StarSchemaMapper_getitem_def Mapper_getitem_def attribute_table_def
      owned_attribute_def has_locales_def ref_with_locale_def sales_mapper_fields
      sales_mapper_prefix flag_dimension customer_dimension py_or_def naming_truthy_def
      pick_locale_def null_mapper_def dimension_table_name_def table_name_def or_empty_def
      reference_from_dict_def)

theorem star_schema_lookup_witness:
  "attr_expression (derived_attribute ''margin'' (Variable ''amount'') :: dimension attribute)
     \<noteq> None
   \<and> StarSchemaMapper_getitem has_locales ref_with_locale reference_from_dict sales_mapper
        (derived_attribute ''margin'' (Variable ''amount''))
       = Inl (ModelError (''Attribute '' @ [CHR 0x27] @ ''margin'' @ [CHR 0x27]
            @ '' has an expression, it can not have a direct physical representation''))
   \<and> map_of (mappings sales_mapper)
        (ref_with_locale
           (owned_attribute ''name'' (flat_dimension ''customer'' [''id'', ''name''])) None)
       = Some (JDict [(''table'', JStr ''dim_customer''), (''column'', JStr ''name'')])
   \<and> StarSchemaMapper_getitem has_locales ref_with_locale reference_from_dict sales_mapper
        (owned_attribute ''name'' (flat_dimension ''customer'' [''id'', ''name'']))
       = Inr \<lparr> cr_schema = NNone, cr_table = ''dim_customer'', cr_column = ''name'' \<rparr>
   \<and> map_of (mappings sales_mapper)
        (ref_with_locale
           (owned_attribute ''city'' (flat_dimension ''customer'' [''id'', ''name''])) None)
       = None
   \<and> StarSchemaMapper_getitem has_locales ref_with_locale reference_from_dict sales_mapper
        (owned_attribute ''city'' (flat_dimension ''customer'' [''id'', ''name'']))
       = Inr \<lparr> cr_schema = NNone, cr_table = ''dim_customer'', cr_column = ''city'' \<rparr>
   \<and> pick_locale (sales_mapper\<lparr> mapper_locale := Some ''sk'' \<rparr>)
        ((owned_attribute ''label'' (flat_dimension ''customer'' [''id'', ''name'']))
           \<lparr> attr_locales := [''en'', ''sk''] \<rparr>) = Inr ''sk''
   \<and> StarSchemaMapper_getitem has_locales ref_with_locale reference_from_dict
        (sales_mapper\<lparr> mapper_locale := Some ''sk'' \<rparr>)
        ((owned_attribute ''label'' (flat_dimension ''customer'' [''id'', ''name'']))
           \<lparr> attr_locales := [''en'', ''sk''] \<rparr>)
       = Inr \<lparr> cr_schema = NNone, cr_table = ''dim_customer'', cr_column = ''label_sk'' \<rparr>
   \<and> StarSchemaMapper_getitem has_locales ref_with_locale reference_from_dict
        (sales_mapper\<lparr> mapper_locale := Some ''sk'',
           mappings := [(''customer.label.sk'',
             JDict [(''table'', JStr ''labels''), (''column'', JStr ''sk'')])] \<rparr>)
        ((owned_attribute ''label'' (flat_dimension ''customer'' [''id'', ''name'']))
           \<lparr> attr_locales := [''en'', ''sk''] \<rparr>)
       = Inr \<lparr> cr_schema = NNone, cr_table = ''labels'', cr_column = ''sk'' \<rparr>
   \<and> dim_master year_dimension = Some date_dimension
   \<and> length (dim_levels year_dimension) = 1 \<and> length (dim_levels date_dimension) = 3
   \<and> StarSchemaMapper_getitem has_locales ref_with_locale reference_from_dict sales_mapper
        (owned_attribute ''year'' year_dimension)
       = Inr \<lparr> cr_schema = NNone, cr_table = ''dim_years'', cr_column = ''year'' \<rparr>
   \<and> StarSchemaMapper_getitem has_locales ref_with_locale reference_from_dict
        (sales_mapper\<lparr> dimension_schema := NStr ''dw'' \<rparr>)
        (owned_attribute ''city'' (flat_dimension ''customer'' [''id'', ''name'']))
       = Inr \<lparr> cr_schema = NStr ''dw'', cr_table = ''dim_customer'', cr_column = ''city'' \<rparr>
   \<and> pick_locale (sales_mapper\<lparr> mapper_locale := Some ''de'' \<rparr>)
        ((owned_attribute ''label'' (flat_dimension ''customer'' [''id'', ''name'']))
           \<lparr> attr_locales := [''en'', ''sk''] \<rparr>) = Inr ''en''"
proof -
  let ?cust = "flat_dimension ''customer'' [''id'', ''name'']"
  let ?a1 = "derived_attribute ''margin'' (Variable ''amount'') :: dimension attribute"
  let ?a2 = "owned_attribute ''name'' ?cust"
  let ?a3 = "owned_attribute ''city'' ?cust"
  let ?a4 = "(owned_attribute ''label'' ?cust)\<lparr> attr_locales := [''en'', ''sk''] \<rparr>"
  let ?p2 = "JDict [(''table'', JStr ''dim_customer''), (''column'', JStr ''name'')]"
  let ?p5 = "JDict [(''table'', JStr ''labels''), (''column'', JStr ''sk'')]"
  let ?m4 = "sales_mapper\<lparr> mapper_locale := Some ''sk'' \<rparr>"
  let ?m5 = "sales_mapper\<lparr> mapper_locale := Some ''sk'',
           mappings := [(''customer.label.sk'', ?p5)] \<rparr>"
  let ?star = "StarSchemaMapper_getitem has_locales ref_with_locale reference_from_dict"
  note attrs = owned_attribute_def derived_attribute_def has_locales_def ref_with_locale_def
  have h1: "attr_expression ?a1 \<noteq> None" by (simp add: attrs)
  have r1: "?star sales_mapper ?a1
      = Inl (ModelError (''Attribute '' @ [CHR 0x27] @ ''margin'' @ [CHR 0x27]
            @ '' has an expression, it can not have a direct physical representation''))"
    using star_schema_lookup [where il = has_locales and lr = ref_with_locale
      and fd = reference_from_dict and m = sales_mapper and a = ?a1, THEN conjunct1] h1
    by (simp add: attrs)
  have h2: "map_of (mappings sales_mapper) (ref_with_locale ?a2 None) = Some ?p2"
    by (simp add: attrs sales_mapper_fields customer_dimension)
  have h2': "attr_expression ?a2 = None \<and> \<not> has_locales ?a2
      \<and> map_of (mappings sales_mapper) (ref_with_locale ?a2 None) = Some ?p2 \<and> ?p2 \<noteq> JNull"
    using h2 by (simp add: attrs)
  have "?star sales_mapper ?a2 = reference_from_dict ?p2"
    using star_schema_lookup [where il = has_locales and lr = ref_with_locale
      and fd = reference_from_dict and m = sales_mapper and a = ?a2 and p = ?p2,
      THEN conjunct2, THEN conjunct1] h2'
    by (rule mp)
  then have r2: "?star sales_mapper ?a2
      = Inr \<lparr> cr_schema = NNone, cr_table = ''dim_customer'', cr_column = ''name'' \<rparr>"
    by (simp add: reference_from_dict_def)
  have h3: "map_of (mappings sales_mapper) (ref_with_locale ?a3 None) = None"
    by (simp add: attrs sales_mapper_fields customer_dimension)
  have h3': "attr_expression ?a3 = None \<and> \<not> has_locales ?a3
      \<and> (map_of (mappings sales_mapper) (ref_with_locale ?a3 None) = None
           \<or> map_of (mappings sales_mapper) (ref_with_locale ?a3 None) = Some JNull)"
    using h3 by (simp add: attrs)
  have r3: "?star sales_mapper ?a3
      = Inr \<lparr> cr_schema = NNone, cr_table = ''dim_customer'', cr_column = ''city'' \<rparr>"
    using star_schema_lookup [where il = has_locales and lr = ref_with_locale
      and fd = reference_from_dict and m = sales_mapper and a = ?a3,
      THEN conjunct2, THEN conjunct2, THEN conjunct2, THEN conjunct1, THEN mp, OF h3']
    by (simp add: owned_attribute_def sales_mapper_fields customer_dimension py_or_def
        naming_truthy_def)
  have h4: "pick_locale ?m4 ?a4 = Inr ''sk''"
    by (simp add: pick_locale_def owned_attribute_def)
  have h4': "attr_expression ?a4 = None \<and> has_locales ?a4 \<and> pick_locale ?m4 ?a4 = Inr ''sk''
      \<and> (map_of (mappings ?m4) (ref_with_locale ?a4 (Some ''sk'')) = None
           \<or> map_of (mappings ?m4) (ref_with_locale ?a4 (Some ''sk'')) = Some JNull)"
    using h4 by (simp add: attrs sales_mapper_fields customer_dimension)
  have r4: "?star ?m4 ?a4
      = Inr \<lparr> cr_schema = NNone, cr_table = ''dim_customer'', cr_column = ''label_sk'' \<rparr>"
    using star_schema_lookup [where il = has_locales and lr = ref_with_locale
      and fd = reference_from_dict and m = ?m4 and a = ?a4 and l = "''sk''",
      THEN conjunct2, THEN conjunct2, THEN conjunct2, THEN conjunct2, THEN conjunct1,
      THEN mp, OF h4']
    by (simp add: owned_attribute_def sales_mapper_fields customer_dimension py_or_def
        naming_truthy_def dimension_table_name_def sales_mapper_prefix table_name_def
        or_empty_def)
  have h5': "attr_expression ?a4 = None \<and> has_locales ?a4 \<and> pick_locale ?m5 ?a4 = Inr ''sk''
      \<and> map_of (mappings ?m5) (ref_with_locale ?a4 (Some ''sk'')) = Some ?p5 \<and> ?p5 \<noteq> JNull"
    by (simp add: attrs pick_locale_def customer_dimension)
  have "?star ?m5 ?a4 = reference_from_dict ?p5"
    using star_schema_lookup [where il = has_locales and lr = ref_with_locale
      and fd = reference_from_dict and m = ?m5 and a = ?a4 and l = "''sk''" and p = ?p5,
      THEN conjunct2, THEN conjunct2, THEN conjunct1] h5'
    by (rule mp)
  then have r5: "?star ?m5 ?a4
      = Inr \<lparr> cr_schema = NNone, cr_table = ''labels'', cr_column = ''sk'' \<rparr>"
    by (simp add: reference_from_dict_def)
  let ?a6 = "owned_attribute ''year'' year_dimension"
  have h6': "attr_expression ?a6 = None \<and> \<not> has_locales ?a6
      \<and> (map_of (mappings sales_mapper) (ref_with_locale ?a6 None) = None
           \<or> map_of (mappings sales_mapper) (ref_with_locale ?a6 None) = Some JNull)"
    by (simp add: attrs sales_mapper_fields year_dimension_master)
  have r6: "?star sales_mapper ?a6
      = Inr \<lparr> cr_schema = NNone, cr_table = ''dim_years'', cr_column = ''year'' \<rparr>"
    using star_schema_lookup [where il = has_locales and lr = ref_with_locale
      and fd = reference_from_dict and m = sales_mapper and a = ?a6,
      THEN conjunct2, THEN conjunct2, THEN conjunct2, THEN conjunct1, THEN mp, OF h6']
    by (simp add: owned_attribute_def sales_mapper_fields year_dimension_master py_or_def
        naming_truthy_def)
  let ?m7 = "sales_mapper\<lparr> dimension_schema := NStr ''dw'' \<rparr>"
  have h7': "attr_expression ?a3 = None \<and> \<not> has_locales ?a3
      \<and> (map_of (mappings ?m7) (ref_with_locale ?a3 None) = None
           \<or> map_of (mappings ?m7) (ref_with_locale ?a3 None) = Some JNull)"
    by (simp add: attrs sales_mapper_fields customer_dimension)
  have r7: "?star ?m7 ?a3
      = Inr \<lparr> cr_schema = NStr ''dw'', cr_table = ''dim_customer'', cr_column = ''city'' \<rparr>"
    using star_schema_lookup [where il = has_locales and lr = ref_with_locale
      and fd = reference_from_dict and m = ?m7 and a = ?a3,
      THEN conjunct2, THEN conjunct2, THEN conjunct2, THEN conjunct1, THEN mp, OF h7']
    by (simp add: owned_attribute_def sales_mapper_fields customer_dimension py_or_def
        naming_truthy_def dimension_table_name_def sales_mapper_prefix table_name_def
        or_empty_def)
  have h8': "(mapper_locale (sales_mapper\<lparr> mapper_locale := Some ''de'' \<rparr>) = None
         \<or> (\<exists>l'. mapper_locale (sales_mapper\<lparr> mapper_locale := Some ''de'' \<rparr>) = Some l'
               \<and> l' \<notin> set (attr_locales ?a4)))
        \<and> attr_locales ?a4 = ''en'' # [''sk'']"
    by (simp add: owned_attribute_def)
  have r8: "pick_locale (sales_mapper\<lparr> mapper_locale := Some ''de'' \<rparr>) ?a4 = Inr ''en''"
    by (rule star_schema_lookup [where m = "sales_mapper\<lparr> mapper_locale := Some ''de'' \<rparr>"
          and a = ?a4 and ?l0.0 = "''en''" and ls = "[''sk'']",
          THEN conjunct2, THEN conjunct2, THEN conjunct2, THEN conjunct2, THEN conjunct2,
          THEN conjunct2, THEN conjunct1, THEN mp, OF h8'])
  note ym = year_dimension_master(2,3) date_dimension_levels(2)
  show ?thesis by (intro conjI; (rule h1 r1 h2 r2 h3 r3 h4 r4 r5 ym r6 r7 r8))
qed

section \<open>compile_attributes\<close>



























end
